theory Spec2Isabelle
  imports Complex_Main "HOL-Library.Word"
begin

section \<open>The dynamic value tree\<close>

text \<open>
  A \<open>Result\<close> is Go's \<open>map[string]interface{}\<close>. The values an \<open>interface{}\<close> of a
  result holds are modelled by \<open>jvalue\<close>: \<open>JNil\<close> is the nil interface (a JSON null; under
  \<open>reflect.ValueOf\<close> it is the invalid zero \<open>reflect.Value\<close>), \<open>JInt\<close> a value of one of the
  signed integer kinds (read by \<open>Value.Int()\<close> as an int64), \<open>JUint\<close> a value of one of the
  unsigned kinds (read by \<open>Value.Uint()\<close> as a uint64), \<open>JFloat\<close> a value of kind float32
  or float64 (read by \<open>Value.Float()\<close> as a float64), \<open>JNumber\<close> a \<open>json.Number\<close> (kind
  String, type \<open>json.Number\<close>), \<open>JString\<close> an ordinary string, \<open>JArray\<close> a
  \<open>[]interface{}\<close> and \<open>JObject\<close> a \<open>map[string]interface{}\<close>, as an association list whose
  first binding of a key is the map's entry.

  A float64 is not a number, an infinity, or a finite number, which is given exactly, as
  the rational it is (minus zero is zero: the decoder only compares and converts floats).
  Targets of kind float32 and float64 are outside this development.
\<close>

datatype float64 = FNaN | FPosInf | FNegInf | FFinite rat

datatype jvalue =
    JNil
  | JBool bool
  | JInt "64 word"
  | JUint "64 word"
  | JFloat float64
  | JNumber string
  | JString string
  | JArray "jvalue list"
  | JObject "(string \<times> jvalue) list"

type_synonym Result = "(string \<times> jvalue) list"

text \<open>The platform: \<open>strconv.IntSize\<close> and the size of \<open>int\<close> and \<open>uint\<close>.\<close>

datatype arch = Arch32 | Arch64

definition IntSize :: "arch \<Rightarrow> nat" where
  "IntSize a = (case a of Arch32 \<Rightarrow> 32 | Arch64 \<Rightarrow> 64)"

text \<open>A call either panics or returns.\<close>

datatype 'a outcome = Panic | Ret 'a

section \<open>Library functions the decoder calls\<close>

text \<open>
  Strings are Go's byte strings. The functions of \<open>strings\<close>, \<open>strconv\<close> and \<open>unicode\<close> below
  follow the Go standard library on the arguments the decoder passes (base 10, the
  separator \<open>"."\<close>); \<open>unicode.IsUpper\<close> and \<open>unicode.ToLower\<close> are given on ASCII.
\<close>

definition isDigit :: "char \<Rightarrow> bool" where
  "isDigit c = (48 \<le> (of_char c :: nat) \<and> (of_char c :: nat) \<le> 57)"

definition digitVal :: "char \<Rightarrow> nat" where
  "digitVal c = of_char c - 48"

datatype numError = ErrSyntax | ErrRange

text \<open>
  The loop of \<open>strconv.ParseUint\<close> in base 10 over the bytes of the string, \<open>n\<close> the value
  read so far. \<open>cutoff\<close> is \<open>maxUint64/10 + 1\<close>: from there on \<open>n * 10\<close> overflows 64 bits.
  \<open>n\<close> is a natural number here, so the source's test \<open>n1 < n\<close> for a wrapped addition is
  the test \<open>2 ^ 64 \<le> n1\<close>.
\<close>

definition cutoff :: nat where
  "cutoff = 18446744073709551615 div 10 + 1"

fun parseUintLoop :: "nat \<Rightarrow> nat \<Rightarrow> string \<Rightarrow> numError + nat" where
  "parseUintLoop maxVal n [] = Inr n"
| "parseUintLoop maxVal n (c # cs) =
     (if \<not> isDigit c then Inl ErrSyntax
      else if cutoff \<le> n then Inl ErrRange
      else (let n1 = n * 10 + digitVal c
            in if 2 ^ 64 \<le> n1 \<or> maxVal < n1 then Inl ErrRange
               else parseUintLoop maxVal n1 cs))"

text \<open>\<open>strconv.ParseUint(s, 10, bitSize)\<close>; a \<open>bitSize\<close> of 0 stands for \<open>IntSize\<close>.\<close>

definition ParseUint :: "arch \<Rightarrow> string \<Rightarrow> nat \<Rightarrow> numError + nat" where
  "ParseUint a s bitSize =
     (if s = [] then Inl ErrSyntax
      else (let bs = (if bitSize = 0 then IntSize a else bitSize)
            in parseUintLoop (2 ^ bs - 1) 0 s))"

text \<open>
  \<open>strconv.ParseInt(s, 10, bitSize)\<close>: an optional sign, then \<open>ParseUint\<close>; a syntax error
  is returned as it is, and a magnitude beyond the width is a range error.
\<close>

definition ParseInt :: "arch \<Rightarrow> string \<Rightarrow> nat \<Rightarrow> numError + int" where
  "ParseInt a s bitSize =
     (if s = [] then Inl ErrSyntax
      else (let neg = (hd s = CHR ''-'');
                s1 = (if hd s = CHR ''+'' \<or> hd s = CHR ''-'' then tl s else s);
                bs = (if bitSize = 0 then IntSize a else bitSize);
                cut = (2 :: nat) ^ (bs - 1)
            in case ParseUint a s1 bitSize of
                 Inl ErrSyntax \<Rightarrow> Inl ErrSyntax
               | Inl ErrRange \<Rightarrow> Inl ErrRange
               | Inr un \<Rightarrow>
                   if \<not> neg \<and> cut \<le> un then Inl ErrRange
                   else if neg \<and> cut < un then Inl ErrRange
                   else Inr (if neg then - int un else int un)))"

text \<open>\<open>strings.Split(s, ".")\<close>: the pieces of \<open>s\<close> between the dots, \<open>[""]\<close> for the empty string.\<close>

fun Split :: "string \<Rightarrow> string list" where
  "Split [] = [[]]"
| "Split (c # cs) =
     (if c = CHR ''.'' then [] # Split cs
      else (case Split cs of [] \<Rightarrow> [[c]] | x # xs \<Rightarrow> (c # x) # xs))"

section \<open>The path resolver\<close>

text \<open>
  \<open>getValueField\<close>: \<open>value.Type()\<close> panics on the invalid \<open>reflect.Value\<close> (\<open>JNil\<close>), and
  \<open>fields[0]\<close> on an empty slice. A slice is indexed by a segment \<open>ParseUint\<close> accepts, a
  map by the segment as a key, and the element found is unwrapped (\<open>reflect.ValueOf\<close> of its
  \<open>Interface()\<close>: the invalid value for a nil element). Every other kind ends the walk with
  the invalid value.
\<close>

fun getValueField :: "arch \<Rightarrow> jvalue \<Rightarrow> string list \<Rightarrow> jvalue outcome" where
  "getValueField a JNil fields = Panic"
| "getValueField a v [] = Panic"
| "getValueField a (JArray xs) (field # rest) =
     (case ParseUint a field 0 of
        Inl err \<Rightarrow> Ret JNil
      | Inr n \<Rightarrow>
          if length xs \<le> n then Ret JNil
          else (let v = xs ! n
                in if rest = [] then Ret v else getValueField a v rest))"
| "getValueField a (JObject m) (field # rest) =
     (case map_of m field of
        None \<Rightarrow> Ret JNil
      | Some v \<Rightarrow> if rest = [] then Ret v else getValueField a v rest)"
| "getValueField a v (field # rest) = Ret JNil"

text \<open>
  \<open>Result.get\<close>: the first segment is looked up in the result itself; a missing key and a
  key bound to nil both return nil. The invalid value that \<open>getValueField\<close> returns is
  turned into nil, which \<open>JNil\<close> already is.
\<close>

definition get :: "arch \<Rightarrow> Result \<Rightarrow> string list \<Rightarrow> jvalue outcome" where
  "get a res fields =
     (case fields of
        [] \<Rightarrow> Panic
      | f # rest \<Rightarrow>
          (case map_of res f of
             None \<Rightarrow> Ret JNil
           | Some v \<Rightarrow>
               if v = JNil then Ret JNil
               else if rest = [] then Ret v
               else getValueField a v rest))"

definition Get :: "arch \<Rightarrow> Result \<Rightarrow> string \<Rightarrow> jvalue outcome" where
  "Get a res field = (if field = [] then Ret (JObject res) else get a res (Split field))"

definition GetField :: "arch \<Rightarrow> Result \<Rightarrow> string list \<Rightarrow> jvalue outcome" where
  "GetField a res fields = (if fields = [] then Ret (JObject res) else get a res fields)"

section \<open>Name derivation\<close>

text \<open>
  \<open>camelCaseToUnderScore\<close> on ASCII strings, where \<open>utf8.DecodeRuneInString\<close> reads one byte
  and never returns \<open>utf8.RuneError\<close>. Strings with a byte from 128 on are outside this
  development: the theorems below assume ASCII input.
\<close>

definition isUpper :: "char \<Rightarrow> bool" where
  "isUpper c = (65 \<le> (of_char c :: nat) \<and> (of_char c :: nat) \<le> 90)"

definition toLower :: "char \<Rightarrow> char" where
  "toLower c = (if isUpper c then char_of ((of_char c :: nat) + 32) else c)"

text \<open>
  The inner loop, entered after two upper-case letters: \<open>r0\<close> is the letter read last and
  not yet written. It returns \<open>r0\<close>, the rest of the string and the buffer as the loop
  leaves them.
\<close>

fun upperRun :: "char \<Rightarrow> string \<Rightarrow> string \<Rightarrow> char \<times> string \<times> string" where
  "upperRun r0 [] buf = (r0, [], buf)"
| "upperRun r0 (c # cs) buf =
     (if \<not> isUpper c then
        (if c = CHR ''_'' \<or> c = CHR '' '' \<or> c = CHR ''-''
         then (CHR ''_'', cs, buf @ [toLower r0])
         else (c, cs, buf @ [CHR ''_'', toLower r0, c]))
      else upperRun c cs (buf @ [toLower r0]))"

lemma upperRun_length: "length (fst (snd (upperRun r0 s buf))) \<le> length s"
  by (induction r0 s buf rule: upperRun.induct) (simp_all add: le_SucI)

lemma upperRun_lengthD:
  "(r, y) = upperRun r0 s buf \<Longrightarrow> (s', b) = y \<Longrightarrow> length s' < Suc (Suc (length s))"
  using upperRun_length [of r0 s buf] by (cases "upperRun r0 s buf") auto

lemma upperRun_length_case:
  "(case upperRun r0 s buf of (prev, s', b) \<Rightarrow> length s') < Suc (Suc (length s))"
  using upperRun_length [of r0 s buf] by (cases "upperRun r0 s buf") auto

text \<open>The outer loop: \<open>prev\<close> is the value \<open>r0\<close> has when an iteration starts.\<close>

function camelLoop :: "char \<Rightarrow> string \<Rightarrow> string \<Rightarrow> string" where
  "camelLoop prev [] buf = buf"
| "camelLoop prev (c # cs) buf =
     (if isUpper c then
        (let buf1 = (if prev \<noteq> CHR ''_'' then buf @ [CHR ''_''] else buf) @ [toLower c]
         in case cs of
              [] \<Rightarrow> camelLoop c [] buf1
            | d # ds \<Rightarrow>
                if \<not> isUpper d then camelLoop d ds (buf1 @ [d])
                else (case upperRun d ds buf1 of
                        (r0, str, buf2) \<Rightarrow>
                          if str = [] \<or> r0 = CHR ''_''
                          then camelLoop r0 str (buf2 @ [toLower r0])
                          else camelLoop r0 str buf2))
      else (let r0 = (if c = CHR '' '' \<or> c = CHR ''-'' then CHR ''_'' else c)
            in camelLoop r0 cs (buf @ [r0])))"
  by pat_completeness auto
termination
  by (relation "measure (\<lambda>(prev, s, buf). length s)")
     (auto intro: upperRun_lengthD simp: upperRun_length_case)

definition camelCaseToUnderScore :: "string \<Rightarrow> string" where
  "camelCaseToUnderScore str = (if str = [] then [] else camelLoop (CHR ''_'') str [])"


section \<open>Targets of a decode\<close>

text \<open>
  The integer kinds of \<open>reflect\<close> (\<open>KInt\<close> and \<open>KUint\<close> are the platform's \<open>int\<close> and
  \<open>uint\<close>), the type of a target (\<open>reflect.Type\<close>) and the target itself: a
  \<open>reflect.Value\<close> with the storage it stands for. A struct is the list of its fields in
  declaration order, each with its name and the value of its \<open>facebook\<close> tag; a map, a
  slice, an array and a pointer carry their element type, which a decode allocates new
  elements from. A nil map and a nil pointer are \<open>None\<close>. \<open>VNum k n\<close> is a field of the
  integer kind \<open>k\<close> holding \<open>n\<close>; \<open>VIndeterminate k\<close> is such a field after a conversion
  from a float whose result Go leaves to the implementation. An
  \<open>interface{}\<close> target holds a value of the source, which is what the decoder stores into
  one. \<open>TOther\<close> and \<open>VOther\<close> stand for the
  kinds the decoder's switch has no case for (complex numbers, channels, functions,
  uintptr, unsafe pointers), with the name of the kind. Target types that implement
  \<open>json.Unmarshaler\<close> are outside this development: \<open>indirect\<close> returns nil on every target
  here and changes nothing.
\<close>

datatype ikind = KInt8 | KInt16 | KInt32 | KInt64 | KInt | KUint8 | KUint16 | KUint32 | KUint64 | KUint

datatype gtype =
    TBool
  | TNum ikind
  | TString
  | TStruct "(string \<times> string \<times> gtype) list"
  | TMap gtype gtype
  | TSlice gtype
  | TArray nat gtype
  | TPtr gtype
  | TInterface
  | TOther string

datatype gval =
    VBool bool
  | VNum ikind int
  | VIndeterminate ikind
  | VString string
  | VStruct "(string \<times> string \<times> gval) list"
  | VMap gtype gtype "(string \<times> gval) list option"
  | VSlice gtype "gval list"
  | VArray gtype "gval list"
  | VPtr gtype "gval option"
  | VIface jvalue
  | VOther string

text \<open>The zero value of a type: what \<open>reflect.New\<close>, \<open>reflect.MakeSlice\<close> and \<open>reflect.Zero\<close> give.\<close>

fun zero :: "gtype \<Rightarrow> gval" where
  "zero TBool = VBool False"
| "zero (TNum k) = VNum k 0"
| "zero TString = VString []"
| "zero (TStruct ms) = VStruct (map (\<lambda>(name, tag, t). (name, tag, zero t)) ms)"
| "zero (TMap kt vt) = VMap kt vt None"
| "zero (TSlice t) = VSlice t []"
| "zero (TArray n t) = VArray t (replicate n (zero t))"
| "zero (TPtr t) = VPtr t None"
| "zero TInterface = VIface JNil"
| "zero (TOther k) = VOther k"

text \<open>\<open>Value.Elem()\<close> of a pointer that is not nil.\<close>

fun Elem :: "gval \<Rightarrow> gval" where
  "Elem (VPtr t (Some e)) = e"

text \<open>The decimal digits of a number, as \<open>%v\<close> of \<open>fmt\<close> prints an \<open>int\<close> that is not negative.\<close>

fun showNat :: "nat \<Rightarrow> string" where
  "showNat n =
     (if n < 10 then [char_of (48 + n)]
      else showNat (n div 10) @ [char_of (48 + n mod 10)])"

declare showNat.simps [simp del]

section \<open>Errors\<close>

text \<open>
  One constructor for each message the decoder formats, with the arguments of the format:
  \<^item> \<open>GoPanic\<close>: a panic that leaves the decoder;
  \<^item> \<open>OutputNotStruct\<close>: "output value must be a struct.";
  \<^item> \<open>OutputCannotSet\<close>: "output value cannot be set.";
  \<^item> \<open>MissingRequiredField p\<close>: "cannot find field 'p' in result.";
  \<^item> \<open>FieldDoesNotExist p\<close>: "field 'p' doesn't exist in result.";
  \<^item> \<open>NotSettable p\<close>: "field 'p' cannot be decoded. make sure the output value is able to
    be set.";
  \<^item> \<open>NilToNonPointer p\<close>: "field 'p' is not a pointer. cannot assign nil to it.";
  \<^item> \<open>NotBool p\<close>: "field 'p' is not a bool in result.";
  \<^item> \<open>RangeExceeded p t\<close>: "field 'p' value exceeds the range of t.";
  \<^item> \<open>StringNotNumber p\<close>: "field 'p' value is string, not a number.";
  \<^item> \<open>InvalidNumericLexeme p t\<close>: "field 'p' value is not a valid t.";
  \<^item> \<open>NotInteger p\<close>: "field 'p' is not an integer in result.";
  \<^item> \<open>NotString p\<close>: "field 'p' is not a string in result.";
  \<^item> \<open>NotObject p\<close>: "field 'p' is not a json object in result.";
  \<^item> \<open>MapKeyNotString p\<close>: "field 'p' in struct is a map with non-string key type. it's
    not allowed.";
  \<^item> \<open>NotArray p\<close>: "field 'p' is not a json array in result.";
  \<^item> \<open>ArrayLengthExceeded p n m\<close>: "cannot copy all field 'p' values to struct. expected
    len is n. actual len is m.";
  \<^item> \<open>UnsupportedType p k\<close>: "field 'p' in struct uses unsupported type 'k'.".
\<close>

datatype error =
    GoPanic
  | OutputNotStruct
  | OutputCannotSet
  | MissingRequiredField string
  | FieldDoesNotExist string
  | NotSettable string
  | NilToNonPointer string
  | NotBool string
  | RangeExceeded string string
  | StringNotNumber string
  | InvalidNumericLexeme string string
  | NotInteger string
  | NotString string
  | NotObject string
  | MapKeyNotString string
  | NotArray string
  | ArrayLengthExceeded string nat nat
  | UnsupportedType string string

section \<open>Integer targets\<close>

text \<open>
  \<open>Value.SetInt\<close> and \<open>Value.SetUint\<close> store the 64-bit argument cut to the width of the
  field; the field then holds the number returned here. The ten definitions after them
  are the ten integer cases of the switch of \<open>decodeField\<close>, each with the inner switch on
  the kind of the source: a signed source (\<open>val.Int()\<close>), an unsigned one (\<open>val.Uint()\<close>), a
  float (\<open>val.Float()\<close>), a string (a \<open>json.Number\<close> or not), and the default. They return
  the error, or the number the field holds afterwards, \<open>None\<close> when Go leaves that number
  to the implementation.

  In the float cases the comparisons are those of float64 (false on a value that is not a
  number), with the bounds as float64 constants: the bounds of 8, 16 and 32 bits are
  float64 values themselves, \<open>-9223372036854775808\<close> is, and \<open>9223372036854775807\<close> and
  \<open>0xFFFFFFFFFFFFFFFF\<close> are rounded to the nearest float64, \<open>2 ^ 63\<close> and \<open>2 ^ 64\<close>. The
  conversions \<open>int64(n)\<close> and \<open>uint64(n)\<close> discard the fraction; where the result is not a
  value of the type (and for a value that is not a number) Go leaves it to the
  implementation.
\<close>

definition floatLess :: "float64 \<Rightarrow> rat \<Rightarrow> bool" where
  "floatLess n c = (case n of FFinite q \<Rightarrow> q < c | FNegInf \<Rightarrow> True | _ \<Rightarrow> False)"

definition floatGreater :: "float64 \<Rightarrow> rat \<Rightarrow> bool" where
  "floatGreater n c = (case n of FFinite q \<Rightarrow> c < q | FPosInf \<Rightarrow> True | _ \<Rightarrow> False)"

definition truncToZero :: "rat \<Rightarrow> int" where
  "truncToZero q = (if q < 0 then \<lceil>q\<rceil> else \<lfloor>q\<rfloor>)"

definition toInt64 :: "float64 \<Rightarrow> 64 word option" where
  "toInt64 n =
     (case n of
        FFinite q \<Rightarrow>
          (let t = truncToZero q
           in if - (2 ^ 63) \<le> t \<and> t < 2 ^ 63 then Some (word_of_int t) else None)
      | _ \<Rightarrow> None)"

definition toUint64 :: "float64 \<Rightarrow> 64 word option" where
  "toUint64 n =
     (case n of
        FFinite q \<Rightarrow>
          (let t = truncToZero q
           in if 0 \<le> t \<and> t < 2 ^ 64 then Some (word_of_int t) else None)
      | _ \<Rightarrow> None)"

definition SetInt :: "nat \<Rightarrow> 64 word \<Rightarrow> int" where
  "SetInt bits x = signed_take_bit (bits - 1) (sint x)"

definition SetUint :: "nat \<Rightarrow> 64 word \<Rightarrow> int" where
  "SetUint bits x = take_bit bits (uint x)"

definition decodeInt8 :: "arch \<Rightarrow> jvalue \<Rightarrow> string \<Rightarrow> error + int option" where
  "decodeInt8 a val fullName =
     (case val of
        JInt n \<Rightarrow>
          if sint n < - 128 \<or> 127 < sint n then Inl (RangeExceeded fullName ''int8'')
          else Inr (Some (SetInt 8 n))
      | JUint n \<Rightarrow>
          if 127 < uint n then Inl (RangeExceeded fullName ''int8'')
          else Inr (Some (SetInt 8 n))
      | JFloat n \<Rightarrow>
          if floatLess n (- 128) \<or> floatGreater n 127
          then Inl (RangeExceeded fullName ''int8'')
          else Inr (map_option (SetInt 8) (toInt64 n))
      | JNumber s \<Rightarrow>
          (case ParseInt a s 8 of
             Inl err \<Rightarrow> Inl (InvalidNumericLexeme fullName ''int8'')
           | Inr n \<Rightarrow> Inr (Some (SetInt 8 (word_of_int n))))
      | JString s \<Rightarrow> Inl (StringNotNumber fullName)
      | _ \<Rightarrow> Inl (NotInteger fullName))"

definition decodeInt16 :: "arch \<Rightarrow> jvalue \<Rightarrow> string \<Rightarrow> error + int option" where
  "decodeInt16 a val fullName =
     (case val of
        JInt n \<Rightarrow>
          if sint n < - 32768 \<or> 32767 < sint n then Inl (RangeExceeded fullName ''int16'')
          else Inr (Some (SetInt 16 n))
      | JUint n \<Rightarrow>
          if 32767 < uint n then Inl (RangeExceeded fullName ''int16'')
          else Inr (Some (SetInt 16 n))
      | JFloat n \<Rightarrow>
          if floatLess n (- 32768) \<or> floatGreater n 32767
          then Inl (RangeExceeded fullName ''int16'')
          else Inr (map_option (SetInt 16) (toInt64 n))
      | JNumber s \<Rightarrow>
          (case ParseInt a s 16 of
             Inl err \<Rightarrow> Inl (InvalidNumericLexeme fullName ''int16'')
           | Inr n \<Rightarrow> Inr (Some (SetInt 16 (word_of_int n))))
      | JString s \<Rightarrow> Inl (StringNotNumber fullName)
      | _ \<Rightarrow> Inl (NotInteger fullName))"

definition decodeInt32 :: "arch \<Rightarrow> jvalue \<Rightarrow> string \<Rightarrow> error + int option" where
  "decodeInt32 a val fullName =
     (case val of
        JInt n \<Rightarrow>
          if sint n < - 2147483648 \<or> 2147483647 < sint n
          then Inl (RangeExceeded fullName ''int32'')
          else Inr (Some (SetInt 32 n))
      | JUint n \<Rightarrow>
          if 2147483647 < uint n then Inl (RangeExceeded fullName ''int32'')
          else Inr (Some (SetInt 32 n))
      | JFloat n \<Rightarrow>
          if floatLess n (- 2147483648) \<or> floatGreater n 2147483647
          then Inl (RangeExceeded fullName ''int32'')
          else Inr (map_option (SetInt 32) (toInt64 n))
      | JNumber s \<Rightarrow>
          (case ParseInt a s 32 of
             Inl err \<Rightarrow> Inl (InvalidNumericLexeme fullName ''int32'')
           | Inr n \<Rightarrow> Inr (Some (SetInt 32 (word_of_int n))))
      | JString s \<Rightarrow> Inl (StringNotNumber fullName)
      | _ \<Rightarrow> Inl (NotInteger fullName))"

definition decodeInt64 :: "arch \<Rightarrow> jvalue \<Rightarrow> string \<Rightarrow> error + int option" where
  "decodeInt64 a val fullName =
     (case val of
        JInt n \<Rightarrow> Inr (Some (SetInt 64 n))
      | JUint n \<Rightarrow>
          if 9223372036854775807 < uint n then Inl (RangeExceeded fullName ''int64'')
          else Inr (Some (SetInt 64 n))
      | JFloat n \<Rightarrow>
          if floatLess n (- 9223372036854775808) \<or> floatGreater n 9223372036854775808
          then Inl (RangeExceeded fullName ''int64'')
          else Inr (map_option (SetInt 64) (toInt64 n))
      | JNumber s \<Rightarrow>
          (case ParseInt a s 64 of
             Inl err \<Rightarrow> Inl (InvalidNumericLexeme fullName ''int64'')
           | Inr n \<Rightarrow> Inr (Some (SetInt 64 (word_of_int n))))
      | JString s \<Rightarrow> Inl (StringNotNumber fullName)
      | _ \<Rightarrow> Inl (NotInteger fullName))"

definition decodeInt :: "arch \<Rightarrow> jvalue \<Rightarrow> string \<Rightarrow> error + int option" where
  "decodeInt a val fullName =
     (let bits = IntSize a;
          min = (if bits = 32 then - 2147483648
                 else if bits = 64 then - 9223372036854775808 else (0 :: int));
          max = (if bits = 32 then 2147483647
                 else if bits = 64 then 9223372036854775807 else (0 :: int));
          fmin = (if bits = 32 then - 2147483648
                  else if bits = 64 then - 9223372036854775808 else (0 :: rat));
          fmax = (if bits = 32 then 2147483647
                  else if bits = 64 then 9223372036854775808 else (0 :: rat))
      in case val of
           JInt n \<Rightarrow>
             if sint n < min \<or> max < sint n then Inl (RangeExceeded fullName ''int'')
             else Inr (Some (SetInt bits n))
         | JUint n \<Rightarrow>
             if max < uint n then Inl (RangeExceeded fullName ''int'')
             else Inr (Some (SetInt bits n))
         | JFloat n \<Rightarrow>
             if floatLess n fmin \<or> floatGreater n fmax
             then Inl (RangeExceeded fullName ''int'')
             else Inr (map_option (SetInt bits) (toInt64 n))
         | JNumber s \<Rightarrow>
             (case ParseInt a s bits of
                Inl err \<Rightarrow> Inl (InvalidNumericLexeme fullName (''int'' @ showNat bits))
              | Inr n \<Rightarrow> Inr (Some (SetInt bits (word_of_int n))))
         | JString s \<Rightarrow> Inl (StringNotNumber fullName)
         | _ \<Rightarrow> Inl (NotInteger fullName))"

definition decodeUint8 :: "arch \<Rightarrow> jvalue \<Rightarrow> string \<Rightarrow> error + int option" where
  "decodeUint8 a val fullName =
     (case val of
        JInt n \<Rightarrow>
          if sint n < 0 \<or> 255 < sint n then Inl (RangeExceeded fullName ''uint8'')
          else Inr (Some (SetUint 8 n))
      | JUint n \<Rightarrow>
          if 255 < uint n then Inl (RangeExceeded fullName ''uint8'')
          else Inr (Some (SetUint 8 n))
      | JFloat n \<Rightarrow>
          if floatLess n 0 \<or> floatGreater n 255
          then Inl (RangeExceeded fullName ''uint8'')
          else Inr (map_option (SetUint 8) (toUint64 n))
      | JNumber s \<Rightarrow>
          (case ParseUint a s 8 of
             Inl err \<Rightarrow> Inl (InvalidNumericLexeme fullName ''uint8'')
           | Inr n \<Rightarrow> Inr (Some (SetUint 8 (of_nat n))))
      | JString s \<Rightarrow> Inl (StringNotNumber fullName)
      | _ \<Rightarrow> Inl (NotInteger fullName))"

definition decodeUint16 :: "arch \<Rightarrow> jvalue \<Rightarrow> string \<Rightarrow> error + int option" where
  "decodeUint16 a val fullName =
     (case val of
        JInt n \<Rightarrow>
          if sint n < 0 \<or> 65535 < sint n then Inl (RangeExceeded fullName ''uint16'')
          else Inr (Some (SetUint 16 n))
      | JUint n \<Rightarrow>
          if 65535 < uint n then Inl (RangeExceeded fullName ''uint16'')
          else Inr (Some (SetUint 16 n))
      | JFloat n \<Rightarrow>
          if floatLess n 0 \<or> floatGreater n 65535
          then Inl (RangeExceeded fullName ''uint16'')
          else Inr (map_option (SetUint 16) (toUint64 n))
      | JNumber s \<Rightarrow>
          (case ParseUint a s 16 of
             Inl err \<Rightarrow> Inl (InvalidNumericLexeme fullName ''uint16'')
           | Inr n \<Rightarrow> Inr (Some (SetUint 16 (of_nat n))))
      | JString s \<Rightarrow> Inl (StringNotNumber fullName)
      | _ \<Rightarrow> Inl (NotInteger fullName))"

definition decodeUint32 :: "arch \<Rightarrow> jvalue \<Rightarrow> string \<Rightarrow> error + int option" where
  "decodeUint32 a val fullName =
     (case val of
        JInt n \<Rightarrow>
          if sint n < 0 \<or> 4294967295 < sint n then Inl (RangeExceeded fullName ''uint32'')
          else Inr (Some (SetUint 32 n))
      | JUint n \<Rightarrow>
          if 4294967295 < uint n then Inl (RangeExceeded fullName ''uint32'')
          else Inr (Some (SetUint 32 n))
      | JFloat n \<Rightarrow>
          if floatLess n 0 \<or> floatGreater n 4294967295
          then Inl (RangeExceeded fullName ''uint32'')
          else Inr (map_option (SetUint 32) (toUint64 n))
      | JNumber s \<Rightarrow>
          (case ParseUint a s 32 of
             Inl err \<Rightarrow> Inl (InvalidNumericLexeme fullName ''uint32'')
           | Inr n \<Rightarrow> Inr (Some (SetUint 32 (of_nat n))))
      | JString s \<Rightarrow> Inl (StringNotNumber fullName)
      | _ \<Rightarrow> Inl (NotInteger fullName))"

definition decodeUint64 :: "arch \<Rightarrow> jvalue \<Rightarrow> string \<Rightarrow> error + int option" where
  "decodeUint64 a val fullName =
     (case val of
        JInt n \<Rightarrow>
          if sint n < 0 then Inl (RangeExceeded fullName ''uint64'')
          else Inr (Some (SetUint 64 n))
      | JUint n \<Rightarrow> Inr (Some (SetUint 64 n))
      | JFloat n \<Rightarrow>
          if floatLess n 0 \<or> floatGreater n 18446744073709551616
          then Inl (RangeExceeded fullName ''uint64'')
          else Inr (map_option (SetUint 64) (toUint64 n))
      | JNumber s \<Rightarrow>
          (case ParseUint a s 64 of
             Inl err \<Rightarrow> Inl (InvalidNumericLexeme fullName ''uint64'')
           | Inr n \<Rightarrow> Inr (Some (SetUint 64 (of_nat n))))
      | JString s \<Rightarrow> Inl (StringNotNumber fullName)
      | _ \<Rightarrow> Inl (NotInteger fullName))"

definition decodeUint :: "arch \<Rightarrow> jvalue \<Rightarrow> string \<Rightarrow> error + int option" where
  "decodeUint a val fullName =
     (let bits = IntSize a;
          max = (if bits = 32 then 4294967295
                 else if bits = 64 then 18446744073709551615 else (0 :: int));
          fmax = (if bits = 32 then 4294967295
                  else if bits = 64 then 18446744073709551616 else (0 :: rat))
      in case val of
           JInt n \<Rightarrow>
             if sint n < 0 \<or> max < uint n then Inl (RangeExceeded fullName ''uint'')
             else Inr (Some (SetUint bits n))
         | JUint n \<Rightarrow>
             if max < uint n then Inl (RangeExceeded fullName ''uint'')
             else Inr (Some (SetUint bits n))
         | JFloat n \<Rightarrow>
             if floatLess n 0 \<or> floatGreater n fmax
             then Inl (RangeExceeded fullName ''uint'')
             else Inr (map_option (SetUint bits) (toUint64 n))
         | JNumber s \<Rightarrow>
             (case ParseUint a s bits of
                Inl err \<Rightarrow> Inl (InvalidNumericLexeme fullName (''uint'' @ showNat bits))
              | Inr n \<Rightarrow> Inr (Some (SetUint bits (of_nat n))))
         | JString s \<Rightarrow> Inl (StringNotNumber fullName)
         | _ \<Rightarrow> Inl (NotInteger fullName))"

definition decodeInteger :: "arch \<Rightarrow> ikind \<Rightarrow> jvalue \<Rightarrow> string \<Rightarrow> error + int option" where
  "decodeInteger a k val fullName =
     (case k of
        KInt8 \<Rightarrow> decodeInt8 a val fullName
      | KInt16 \<Rightarrow> decodeInt16 a val fullName
      | KInt32 \<Rightarrow> decodeInt32 a val fullName
      | KInt64 \<Rightarrow> decodeInt64 a val fullName
      | KInt \<Rightarrow> decodeInt a val fullName
      | KUint8 \<Rightarrow> decodeUint8 a val fullName
      | KUint16 \<Rightarrow> decodeUint16 a val fullName
      | KUint32 \<Rightarrow> decodeUint32 a val fullName
      | KUint64 \<Rightarrow> decodeUint64 a val fullName
      | KUint \<Rightarrow> decodeUint a val fullName)"

section \<open>The structural decoder\<close>

text \<open>
  The source key and the required flag of a struct field, from the value of its
  \<open>facebook\<close> tag: the text before the first comma is the key, the derived name when it is
  empty, and the field is required when the text from that comma on is \<open>",required"\<close>. A
  field of a struct that can be set can itself be set when its name is exported.
\<close>

definition fieldName :: "string \<Rightarrow> string \<Rightarrow> string" where
  "fieldName Name fbTag =
     (let name = takeWhile (\<lambda>c. c \<noteq> CHR '','') fbTag
      in if name = [] then camelCaseToUnderScore Name else name)"

definition fieldRequired :: "string \<Rightarrow> bool" where
  "fieldRequired fbTag = (dropWhile (\<lambda>c. c \<noteq> CHR '','') fbTag = '',required'')"

definition isExported :: "string \<Rightarrow> bool" where
  "isExported Name = (case Name of [] \<Rightarrow> False | c # cs \<Rightarrow> isUpper c)"

text \<open>
  \<open>Value.MapKeys()\<close> (Go leaves the order open; here it is the order of the association
  list), \<open>Value.SetMapIndex\<close>, and the name \<open>%v\<close> prints for the kind of a target the switch
  has no case for.
\<close>

definition MapKeys :: "(string \<times> 'v) list \<Rightarrow> string list" where
  "MapKeys m = remdups (map fst m)"

definition SetMapIndex :: "(string \<times> gval) list \<Rightarrow> string \<Rightarrow> gval \<Rightarrow> (string \<times> gval) list" where
  "SetMapIndex m key v = (key, v) # filter (\<lambda>e. fst e \<noteq> key) m"

definition kindName :: "gval \<Rightarrow> string" where
  "kindName v = (case v of VPtr t p \<Rightarrow> ''ptr'' | VIface j \<Rightarrow> ''interface'' | VOther k \<Rightarrow> k | _ \<Rightarrow> [])"

lemma size_map_of:
  "map_of r k = Some x \<Longrightarrow> size x < Suc (size_list (size_prod (\<lambda>_. 0) size) r)"
  by (induction r) (auto split: if_splits)

text \<open>
  \<open>decodeField\<close> is the source's \<open>decodeField\<close> up to the end of its pointer block, with
  \<open>addr\<close> and \<open>ro\<close> the flags of the \<open>reflect.Value\<close> it is given (\<open>CanSet\<close> is \<open>addr\<close> and not
  \<open>ro\<close>; the element of a pointer can be set when the pointer is not \<open>ro\<close>); \<open>decodeValue\<close>
  is the rest of it, from the test of \<open>CanSet\<close> on. \<open>decode\<close> is \<open>Result.decode\<close>, and
  \<open>decodeFields\<close> the loop over the fields in it; \<open>decodeKeys\<close> is the loop over the keys of
  a source map and \<open>decodeElems\<close> the loop over the elements of a source array. Each returns
  the target as the call leaves it, and the error if there is one: what was written before
  an error stays written.
\<close>

function decodeField :: "arch \<Rightarrow> jvalue \<Rightarrow> gval \<Rightarrow> bool \<Rightarrow> bool \<Rightarrow> string \<Rightarrow> gval \<times> error option"
  and decodeValue :: "arch \<Rightarrow> jvalue \<Rightarrow> gval \<Rightarrow> bool \<Rightarrow> string \<Rightarrow> gval \<times> error option"
  and decode :: "arch \<Rightarrow> Result \<Rightarrow> gval \<Rightarrow> bool \<Rightarrow> string \<Rightarrow> gval \<times> error option"
  and decodeFields :: "arch \<Rightarrow> Result \<Rightarrow> string \<Rightarrow> (string \<times> string \<times> gval) list
        \<Rightarrow> (string \<times> string \<times> gval) list \<times> error option"
  and decodeKeys :: "arch \<Rightarrow> Result \<Rightarrow> string list \<Rightarrow> gtype \<Rightarrow> bool \<Rightarrow> string
        \<Rightarrow> (string \<times> gval) list \<Rightarrow> (string \<times> gval) list \<times> error option"
  and decodeElems :: "arch \<Rightarrow> jvalue list \<Rightarrow> nat \<Rightarrow> gtype \<Rightarrow> bool \<Rightarrow> string
        \<Rightarrow> gval list \<Rightarrow> gval list \<times> error option"
where
  "decodeField a val field addr ro fullName =
     (case field of
        VPtr t p \<Rightarrow>
          if val = JNil then
            (if p \<noteq> None \<and> addr \<and> \<not> ro then (VPtr t None, None) else (field, None))
          else
            (case p of
               None \<Rightarrow>
                 if addr \<and> \<not> ro then
                   (case decodeValue a val (zero t) (\<not> ro) fullName of
                      (e, err) \<Rightarrow> (VPtr t (Some e), err))
                 else (field, Some GoPanic)
             | Some e0 \<Rightarrow>
                 (case decodeValue a val e0 (\<not> ro) fullName of
                    (e, err) \<Rightarrow> (VPtr t (Some e), err)))
      | _ \<Rightarrow> decodeValue a val field (addr \<and> \<not> ro) fullName)"
| "decodeValue a val field canSet fullName =
     (if \<not> canSet then (field, Some (NotSettable fullName))
      else if val = JNil then (field, Some (NilToNonPointer fullName))
      else
        (case field of
           VBool b \<Rightarrow>
             (case val of
                JBool x \<Rightarrow> (VBool x, None)
              | _ \<Rightarrow> (field, Some (NotBool fullName)))
         | VNum k n \<Rightarrow>
             (case decodeInteger a k val fullName of
                Inl err \<Rightarrow> (field, Some err)
              | Inr None \<Rightarrow> (VIndeterminate k, None)
              | Inr (Some n') \<Rightarrow> (VNum k n', None))
         | VIndeterminate k \<Rightarrow>
             (case decodeInteger a k val fullName of
                Inl err \<Rightarrow> (field, Some err)
              | Inr None \<Rightarrow> (VIndeterminate k, None)
              | Inr (Some n') \<Rightarrow> (VNum k n', None))
         | VString s \<Rightarrow>
             (case val of
                JString x \<Rightarrow> (VString x, None)
              | JNumber x \<Rightarrow> (VString x, None)
              | _ \<Rightarrow> (field, Some (NotString fullName)))
         | VStruct ms \<Rightarrow>
             (case val of
                JObject r \<Rightarrow> decode a r field True fullName
              | _ \<Rightarrow> (field, Some (NotObject fullName)))
         | VMap kt vt m \<Rightarrow>
             (case val of
                JObject r \<Rightarrow>
                  if kt \<noteq> TString then (field, Some (MapKeyNotString fullName))
                  else if vt = TInterface
                  then (VMap kt vt (Some (map (\<lambda>(k, x). (k, VIface x)) r)), None)
                  else
                    (let m0 = (case m of None \<Rightarrow> [] | Some es \<Rightarrow> es);
                         needAddr = (case vt of TPtr t \<Rightarrow> True | _ \<Rightarrow> False);
                         valueType = (case vt of TPtr t \<Rightarrow> t | _ \<Rightarrow> vt)
                     in case decodeKeys a r (MapKeys r) valueType needAddr fullName m0 of
                          (m1, err) \<Rightarrow> (VMap kt vt (Some m1), err))
              | _ \<Rightarrow> (field, Some (NotObject fullName)))
         | VSlice et xs \<Rightarrow>
             (case val of
                JArray vs \<Rightarrow>
                  if et = TInterface then (VSlice et (map VIface vs), None)
                  else
                    (let slc = replicate (length vs) (zero et);
                         needAddr = (case et of TPtr t \<Rightarrow> True | _ \<Rightarrow> False);
                         valueType = (case et of TPtr t \<Rightarrow> t | _ \<Rightarrow> et)
                     in case decodeElems a vs 0 valueType needAddr fullName slc of
                          (slc1, err) \<Rightarrow> (VSlice et slc1, err))
              | _ \<Rightarrow> (field, Some (NotArray fullName)))
         | VArray et xs \<Rightarrow>
             (case val of
                JArray vs \<Rightarrow>
                  if length xs < length vs
                  then (field, Some (ArrayLengthExceeded fullName (length xs) (length vs)))
                  else if et = TInterface
                  then (VArray et (map VIface vs @ drop (length vs) xs), None)
                  else
                    (let needAddr = (case et of TPtr t \<Rightarrow> True | _ \<Rightarrow> False);
                         valueType = (case et of TPtr t \<Rightarrow> t | _ \<Rightarrow> et)
                     in case decodeElems a vs 0 valueType needAddr fullName xs of
                          (xs1, err) \<Rightarrow> (VArray et xs1, err))
              | _ \<Rightarrow> (field, Some (NotArray fullName)))
         | _ \<Rightarrow> (field, Some (UnsupportedType fullName (kindName field)))))"
| "decode a res v canSet fullName =
     (case v of
        VPtr t p \<Rightarrow>
          (case p of
             None \<Rightarrow> (v, Some OutputNotStruct)
           | Some e \<Rightarrow>
               (case decode a res e True fullName of
                  (e1, err) \<Rightarrow> (VPtr t (Some e1), err)))
      | VStruct ms \<Rightarrow>
          if \<not> canSet then (v, Some OutputCannotSet)
          else
            (case decodeFields a res (if fullName \<noteq> [] then fullName @ ''.'' else fullName) ms of
               (ms1, err) \<Rightarrow> (VStruct ms1, err))
      | _ \<Rightarrow> (v, Some OutputNotStruct))"
| "decodeFields a res fullName [] = ([], None)"
| "decodeFields a res fullName (m # ms) =
     (case m of
        (Name, fbTag, field) \<Rightarrow>
          (let name = fieldName Name fbTag;
               required = fieldRequired fbTag
           in case map_of res name of
                None \<Rightarrow>
                  if required then (m # ms, Some (MissingRequiredField (fullName @ name)))
                  else
                    (case decodeFields a res fullName ms of
                       (ms1, err) \<Rightarrow> (m # ms1, err))
              | Some val \<Rightarrow>
                  (case decodeField a val field True (\<not> isExported Name) (fullName @ name) of
                     (field1, Some err) \<Rightarrow> ((Name, fbTag, field1) # ms, Some err)
                   | (field1, None) \<Rightarrow>
                       (case decodeFields a res fullName ms of
                          (ms1, err) \<Rightarrow> ((Name, fbTag, field1) # ms1, err)))))"
| "decodeKeys a r [] valueType needAddr fullName m = (m, None)"
| "decodeKeys a r (key # keys) valueType needAddr fullName m =
     (case map_of r key of
        None \<Rightarrow> (m, Some GoPanic)
      | Some val \<Rightarrow>
          (case decodeField a val (VPtr valueType (Some (zero valueType))) False False
                  (fullName @ ''.'' @ key) of
             (newValue, Some err) \<Rightarrow> (m, Some err)
           | (newValue, None) \<Rightarrow>
               decodeKeys a r keys valueType needAddr fullName
                 (SetMapIndex m key (if needAddr then newValue else Elem newValue))))"
| "decodeElems a [] i valueType needAddr fullName slc = (slc, None)"
| "decodeElems a (val # vals) i valueType needAddr fullName slc =
     (case decodeField a val (VPtr valueType (Some (zero valueType))) False False
             (fullName @ ''.'' @ showNat i) of
        (newValue, Some err) \<Rightarrow> (slc, Some err)
      | (newValue, None) \<Rightarrow>
          decodeElems a vals (i + 1) valueType needAddr fullName
            (slc[i := (if needAddr then newValue else Elem newValue)]))"
  by pat_completeness auto
termination
  by (relation "inv_image (less_than <*lex*> less_than <*lex*> less_than)
        (\<lambda>x. case x of
           Inl (Inl (a, val, field, addr, ro, fullName)) \<Rightarrow> (size val, 5 :: nat, 0 :: nat)
         | Inl (Inr (Inl (a, val, field, canSet, fullName))) \<Rightarrow> (size val, 4, 0)
         | Inl (Inr (Inr (a, res, v, canSet, fullName))) \<Rightarrow> (size (JObject res), 2, size v)
         | Inr (Inl (a, res, fullName, ms)) \<Rightarrow> (size (JObject res), 1, length ms)
         | Inr (Inr (Inl (a, r, keys, valueType, needAddr, fullName, m))) \<Rightarrow>
             (size (JObject r), 1, length keys)
         | Inr (Inr (Inr (a, vals, i, valueType, needAddr, fullName, slc))) \<Rightarrow>
             (size (JArray vals), 1, 0))")
     (auto simp: size_map_of)

text \<open>
  \<open>Result.Decode\<close> and \<open>Result.DecodeField\<close>, given the \<open>reflect.ValueOf\<close> of their argument:
  a value that is not addressable. The recover of \<open>Decode\<close> lets a panic that is a
  \<open>runtime.Error\<close> through and asserts every other one to be an \<open>error\<close>; the panics of
  this development carry a string, for which the assertion panics.
\<close>

definition Decode :: "arch \<Rightarrow> Result \<Rightarrow> gval \<Rightarrow> gval \<times> error option" where
  "Decode a res v = decode a res v False []"

definition DecodeField :: "arch \<Rightarrow> Result \<Rightarrow> string \<Rightarrow> gval \<Rightarrow> gval \<times> error option" where
  "DecodeField a res field v =
     (case Get a res field of
        Panic \<Rightarrow> (v, Some GoPanic)
      | Ret f \<Rightarrow>
          if f = JNil then (v, Some (FieldDoesNotExist field))
          else decodeField a f v False False field)"

section \<open>Targets and sources of the examples\<close>

text \<open>
  The struct of the user scenario: \<open>UserId int64\<close> and \<open>Name string\<close>, both tagged
  \<open>",required"\<close>, and \<open>Tags []string\<close>, with its source object, whose \<open>"user_id"\<close> is a
  \<open>json.Number\<close>.
\<close>

definition userType :: gtype where
  "userType =
     TStruct [(''UserId'', '',required'', TNum KInt64),
              (''Name'', '',required'', TString),
              (''Tags'', [], TSlice TString)]"

definition userSource :: "string \<Rightarrow> Result" where
  "userSource userId =
     [(''user_id'', JNumber userId),
      (''name'', JString ''Ada''),
      (''tags'', JArray [JString ''x'', JString ''y''])]"

text \<open>A pointer to a struct with the one field \<open>P *string\<close>, holding \<open>ptr\<close>.\<close>

definition holder :: "gval option \<Rightarrow> gval" where
  "holder ptr =
     VPtr (TStruct [(''P'', [], TPtr TString)]) (Some (VStruct [(''P'', [], VPtr TString ptr)]))"

section \<open>Notions used to state the properties\<close>

text \<open>\<open>strings.Join(segs, ".")\<close>: the dotted path of a list of segments.\<close>

fun Join :: "string list \<Rightarrow> string" where
  "Join [] = []"
| "Join [x] = x"
| "Join (x # y # ys) = x @ CHR ''.'' # Join (y # ys)"

text \<open>
  The integer kinds in a table: whether the kind is signed, its width on a platform, the
  least and the greatest number of that width, the name of the kind in the range error,
  and the name in the error of a lexeme that does not parse (\<open>int\<close> or \<open>uint\<close> and the
  width, also for the platform's \<open>int\<close> and \<open>uint\<close>).
\<close>

definition isSigned :: "ikind \<Rightarrow> bool" where
  "isSigned k =
     (case k of KInt8 \<Rightarrow> True | KInt16 \<Rightarrow> True | KInt32 \<Rightarrow> True | KInt64 \<Rightarrow> True | KInt \<Rightarrow> True
      | _ \<Rightarrow> False)"

definition bitsOf :: "arch \<Rightarrow> ikind \<Rightarrow> nat" where
  "bitsOf a k =
     (case k of
        KInt8 \<Rightarrow> 8 | KInt16 \<Rightarrow> 16 | KInt32 \<Rightarrow> 32 | KInt64 \<Rightarrow> 64 | KInt \<Rightarrow> IntSize a
      | KUint8 \<Rightarrow> 8 | KUint16 \<Rightarrow> 16 | KUint32 \<Rightarrow> 32 | KUint64 \<Rightarrow> 64 | KUint \<Rightarrow> IntSize a)"

definition minOf :: "arch \<Rightarrow> ikind \<Rightarrow> int" where
  "minOf a k = (if isSigned k then - (2 ^ (bitsOf a k - 1)) else 0)"

definition maxOf :: "arch \<Rightarrow> ikind \<Rightarrow> int" where
  "maxOf a k = (if isSigned k then 2 ^ (bitsOf a k - 1) - 1 else 2 ^ bitsOf a k - 1)"

definition typeName :: "ikind \<Rightarrow> string" where
  "typeName k =
     (case k of
        KInt8 \<Rightarrow> ''int8'' | KInt16 \<Rightarrow> ''int16'' | KInt32 \<Rightarrow> ''int32'' | KInt64 \<Rightarrow> ''int64''
      | KInt \<Rightarrow> ''int''
      | KUint8 \<Rightarrow> ''uint8'' | KUint16 \<Rightarrow> ''uint16'' | KUint32 \<Rightarrow> ''uint32''
      | KUint64 \<Rightarrow> ''uint64'' | KUint \<Rightarrow> ''uint'')"

definition lexemeTypeName :: "arch \<Rightarrow> ikind \<Rightarrow> string" where
  "lexemeTypeName a k = (if isSigned k then ''int'' else ''uint'') @ showNat (bitsOf a k)"

text \<open>
  The decimal lexeme of an integer, and the parse of a lexeme for a target kind:
  \<open>strconv.ParseInt\<close> for a signed kind, \<open>strconv.ParseUint\<close> for an unsigned one, with
  the width of the kind.
\<close>

definition showInt :: "int \<Rightarrow> string" where
  "showInt m = (if m < 0 then CHR ''-'' # showNat (nat (- m)) else showNat (nat m))"

definition parseLexeme :: "arch \<Rightarrow> ikind \<Rightarrow> string \<Rightarrow> numError + int" where
  "parseLexeme a k s =
     (if isSigned k then ParseInt a s (bitsOf a k)
      else (case ParseUint a s (bitsOf a k) of Inl err \<Rightarrow> Inl err | Inr n \<Rightarrow> Inr (int n)))"

text \<open>The number a string of digits stands for, read from the left after \<open>n\<close>.\<close>

fun digitsValue :: "nat \<Rightarrow> string \<Rightarrow> nat" where
  "digitsValue n [] = n"
| "digitsValue n (c # cs) = digitsValue (n * 10 + digitVal c) cs"

section \<open>Evaluation of concrete calls\<close>

declare decodeField.simps [simp del] decodeValue.simps [simp del] decode.simps [simp del]

lemmas decode_simps = decodeField.simps decodeValue.simps decode.simps

lemmas integer_defs =
  decodeInteger_def decodeInt8_def decodeInt16_def decodeInt32_def decodeInt64_def decodeInt_def
  decodeUint8_def decodeUint16_def decodeUint32_def decodeUint64_def decodeUint_def

lemmas strconv_defs = ParseInt_def ParseUint_def isDigit_def digitVal_def cutoff_def IntSize_def

lemmas field_defs = fieldName_def fieldRequired_def isExported_def isUpper_def

lemma showNat_0: "showNat 0 = ''0''"
  by code_simp

lemma showNat_1: "showNat (Suc 0) = ''1''"
  by code_simp

lemma camel_UserId: "camelCaseToUnderScore ''UserId'' = ''user_id''"
  by code_simp

lemma camel_Name: "camelCaseToUnderScore ''Name'' = ''name''"
  by code_simp

lemma camel_Tags: "camelCaseToUnderScore ''Tags'' = ''tags''"
  by code_simp

lemma camel_A: "camelCaseToUnderScore ''A'' = ''a''"
  by code_simp

lemma camel_B: "camelCaseToUnderScore ''B'' = ''b''"
  by code_simp

lemma camel_C: "camelCaseToUnderScore ''C'' = ''c''"
  by code_simp

lemma camel_P: "camelCaseToUnderScore ''P'' = ''p''"
  by code_simp

section \<open>The path resolver: a null inside the tree\<close>

text \<open>
  Claim C6 says that the path resolver never panics and returns nil for every unmatched
  path, also when a key on the way is bound to null. In the result
  \<open>{"a": {"b": null}}\<close> the path \<open>a.b.c\<close> finds \<open>b\<close> bound to null with a segment left:
  \<open>getValueField\<close> is called on the invalid value and \<open>value.Type()\<close> panics, from
  \<open>Result.Get\<close> and from \<open>Result.GetField\<close> alike. (A null bound to the first segment is
  caught by \<open>Result.get\<close>, which returns nil.)
\<close>

theorem C6_nested_null_panics:
  "Get a [(''a'', JObject [(''b'', JNil)])] ''a.b.c'' = Panic \<and>
   GetField a [(''a'', JObject [(''b'', JNil)])] [''a'', ''b'', ''c''] = Panic \<and>
   Get a [(''a'', JNil)] ''a.b.c'' = Ret JNil"
  by (simp add: Get_def GetField_def get_def)

section \<open>Name derivation: a separator or a single letter after upper-case letters\<close>

text \<open>An identifier without upper-case letters, spaces and hyphens derives to itself.\<close>

lemma camelLoop_plain:
  "\<forall>c \<in> set s. \<not> isUpper c \<and> c \<noteq> CHR '' '' \<and> c \<noteq> CHR ''-'' \<Longrightarrow>
   camelLoop prev s buf = buf @ s"
  by (induction s arbitrary: prev buf) simp_all

lemma camelCaseToUnderScore_plain:
  "\<forall>c \<in> set s. \<not> isUpper c \<and> c \<noteq> CHR '' '' \<and> c \<noteq> CHR ''-'' \<Longrightarrow>
   camelCaseToUnderScore s = s"
  by (simp add: camelCaseToUnderScore_def camelLoop_plain)

text \<open>
  Claim C7 says that \<open>camelCaseToUnderScore\<close> turns a space or a hyphen inside the
  identifier into an underscore and writes an acronym followed by a word as the two joined
  by an underscore. A hyphen right after a single upper-case letter is written as it is:
  \<open>"A-b"\<close> gives \<open>"a-b"\<close>, not \<open>"a_b"\<close>. A run of upper-case letters followed by one last
  character writes that character twice: \<open>"ABc"\<close> gives \<open>"a_bcc"\<close>, not \<open>"a_bc"\<close>. The
  example of the claim, \<open>"HTTPServer"\<close>, gives \<open>"http_server"\<close>.
\<close>

theorem C7_separator_and_last_letter:
  "camelCaseToUnderScore ''A-b'' = ''a-b'' \<and>
   camelCaseToUnderScore ''ABc'' = ''a_bcc'' \<and>
   camelCaseToUnderScore ''HTTPServer'' = ''http_server''"
  by code_simp

section \<open>The scenario of the user record\<close>

text \<open>
  Claim C2, second half, as it is stated: with \<open>"user_id"\<close> changed to
  \<open>9223372036854775808\<close> the decode fails with the range error at \<open>user_id\<close>. It fails with
  the error of a lexeme that \<open>strconv.ParseInt\<close> rejects, "value is not a valid int64".
\<close>

theorem C2_range_error_counterexample:
  "snd (Decode Arch64 (userSource ''9223372036854775808'') (VPtr userType (Some (zero userType))))
     = Some (InvalidNumericLexeme ''user_id'' ''int64'') \<and>
   (\<forall>t. snd (Decode Arch64 (userSource ''9223372036854775808'')
               (VPtr userType (Some (zero userType))))
     \<noteq> Some (RangeExceeded ''user_id'' t))"
  by (simp add: Decode_def userType_def userSource_def decode_simps field_defs integer_defs
        strconv_defs camel_UserId camel_Name camel_Tags)

text \<open>
  Claim C2, amended: the decode of the source with \<open>9223372036854775807\<close> succeeds and
  fills the three fields; with \<open>9223372036854775808\<close> it fails at \<open>user_id\<close> with the
  error "value is not a valid int64". Both hold on either platform.
\<close>

theorem C2_user_scenario:
  "Decode a (userSource ''9223372036854775807'') (VPtr userType (Some (zero userType)))
     = (VPtr userType (Some (VStruct
          [(''UserId'', '',required'', VNum KInt64 9223372036854775807),
           (''Name'', '',required'', VString ''Ada''),
           (''Tags'', [], VSlice TString [VString ''x'', VString ''y''])])), None) \<and>
   snd (Decode a (userSource ''9223372036854775808'') (VPtr userType (Some (zero userType))))
     = Some (InvalidNumericLexeme ''user_id'' ''int64'')"
  by (simp add: Decode_def userType_def userSource_def decode_simps field_defs integer_defs
        strconv_defs SetInt_def showNat_0 showNat_1 camel_UserId camel_Name camel_Tags)

section \<open>Structs: absent keys\<close>

lemma decodeFields_empty_source:
  "\<forall>(Name, fbTag, field) \<in> set ms. \<not> fieldRequired fbTag \<Longrightarrow>
   decodeFields a [] fullName ms = (ms, None)"
  by (induction ms) auto

lemma decodeFields_missing_fails:
  "fieldRequired fbTag \<Longrightarrow> map_of res (fieldName Name fbTag) = None \<Longrightarrow>
   snd (decodeFields a res p (pre @ (Name, fbTag, field) # post)) \<noteq> None"
proof (induction pre)
  case Nil
  then show ?case by simp
next
  case (Cons m pre)
  obtain N t f where m: "m = (N, t, f)" by (cases m)
  show ?case
  proof (cases "map_of res (fieldName N t)")
    case None
    with Cons m show ?thesis by (auto split: prod.splits)
  next
    case (Some val)
    with Cons m show ?thesis by (auto split: prod.splits option.splits)
  qed
qed

lemma decodeFields_first_missing:
  "fieldRequired fbTag \<Longrightarrow> map_of res (fieldName Name fbTag) = None \<Longrightarrow>
   \<forall>(N, t, f) \<in> set pre. fieldRequired t \<longrightarrow> map_of res (fieldName N t) \<noteq> None \<Longrightarrow>
   \<forall>(N, t, f) \<in> set pre. \<forall>val. map_of res (fieldName N t) = Some val \<longrightarrow>
       snd (decodeField a val f True (\<not> isExported N) (p @ fieldName N t)) = None \<Longrightarrow>
   snd (decodeFields a res p (pre @ (Name, fbTag, field) # post))
     = Some (MissingRequiredField (p @ fieldName Name fbTag))"
proof (induction pre)
  case Nil
  then show ?case by simp
next
  case (Cons m pre)
  obtain N t f where m: "m = (N, t, f)" by (cases m)
  show ?case
  proof (cases "map_of res (fieldName N t)")
    case None
    with Cons m show ?thesis by (auto split: prod.splits)
  next
    case (Some val)
    with Cons.prems m
    have "snd (decodeField a val f True (\<not> isExported N) (p @ fieldName N t)) = None"
      by simp
    with Some Cons m show ?thesis by (auto split: prod.splits option.splits)
  qed
qed

lemma decodeFields_earlier_error:
  "\<forall>(N, t, f) \<in> set pre1. fieldRequired t \<longrightarrow> map_of res (fieldName N t) \<noteq> None \<Longrightarrow>
   \<forall>(N, t, f) \<in> set pre1. \<forall>val. map_of res (fieldName N t) = Some val \<longrightarrow>
       snd (decodeField a val f True (\<not> isExported N) (p @ fieldName N t)) = None \<Longrightarrow>
   map_of res (fieldName N0 t0) = Some val0 \<Longrightarrow>
   snd (decodeField a val0 f0 True (\<not> isExported N0) (p @ fieldName N0 t0)) = Some e \<Longrightarrow>
   snd (decodeFields a res p (pre1 @ (N0, t0, f0) # rest)) = Some e"
proof (induction pre1)
  case Nil
  then show ?case by (auto split: prod.splits option.splits)
next
  case (Cons m pre1)
  obtain N t f where m: "m = (N, t, f)" by (cases m)
  show ?case
  proof (cases "map_of res (fieldName N t)")
    case None
    with Cons m show ?thesis by (auto split: prod.splits)
  next
    case (Some val)
    with Cons.prems m
    have "snd (decodeField a val f True (\<not> isExported N) (p @ fieldName N t)) = None"
      by simp
    with Some Cons m show ?thesis by (auto split: prod.splits option.splits)
  qed
qed


text \<open>
  Claim C5: for a struct none of whose fields is marked required, \<open>Decode\<close> of the empty
  source object into it (through a pointer, as \<open>Decode\<close> needs to set it) returns no error
  and leaves the struct, every field of it, as it was.
\<close>

theorem C5_empty_source:
  assumes "\<forall>(Name, fbTag, field) \<in> set ms. \<not> fieldRequired fbTag"
  shows "Decode a [] (VPtr t (Some (VStruct ms))) = (VPtr t (Some (VStruct ms)), None)"
  using decodeFields_empty_source [OF assms]
  by (simp add: Decode_def decode.simps)

theorem C5_empty_source_witness:
  "Decode Arch64 []
     (VPtr userType (Some (VStruct
        [(''A'', [], VBool True), (''B'', ''b'', VPtr TString (Some (VString ''old'')))])))
     = (VPtr userType (Some (VStruct
        [(''A'', [], VBool True), (''B'', ''b'', VPtr TString (Some (VString ''old'')))])), None)"
  using C5_empty_source
    [of "[(''A'', [], VBool True), (''B'', ''b'', VPtr TString (Some (VString ''old'')))]"
      Arch64 userType]
  by (simp add: fieldRequired_def)

text \<open>
  Claim C3, as it is stated: whenever a required field's key is missing from the source,
  \<open>Decode\<close> fails with the missing-field error. In the struct \<open>A bool\<close>, \<open>B string\<close> with
  \<open>B\<close> required and the source \<open>{"a": "x"}\<close>, the key \<open>b\<close> is missing, and \<open>Decode\<close> fails
  with the error of \<open>A\<close>, which is declared first: "field 'a' is not a bool in result.".
\<close>

theorem C3_earlier_error_counterexample:
  "fieldRequired '',required'' \<and>
   map_of [(''a'', JString ''x'')] (fieldName ''B'' '',required'') = None \<and>
   snd (Decode Arch64 [(''a'', JString ''x'')]
          (VPtr TBool (Some (VStruct
             [(''A'', [], VBool False), (''B'', '',required'', VString [])]))))
     = Some (NotBool ''a'')"
  by (simp add: Decode_def decode_simps field_defs camel_A camel_B)

text \<open>
  Claim C3, amended. \<open>Result.decode\<close> runs on a struct that can be set, with the path
  \<open>fullName\<close> of the struct (empty for \<open>Result.Decode\<close>, the dotted path of the field for a
  nested struct). Let a field be marked required, its key be missing from the source, and
  no required field declared before it miss its key. Then the decode fails. If the fields
  declared before it whose keys are present all decode without an error, the error is the
  missing-field error with the dotted path of that field: \<open>fullName\<close>, a dot when
  \<open>fullName\<close> is not empty, and the key. Otherwise the error is that of the first of those
  earlier fields that fails: if a field declared before it has its key present and its
  decode returns the error \<open>e\<close>, and the fields before that one whose keys are present
  decode without an error, the decode returns \<open>e\<close>.
\<close>

theorem C3_missing_required_field:
  assumes "fieldRequired fbTag"
    and "map_of res (fieldName Name fbTag) = None"
    and "\<forall>(N, t, f) \<in> set pre. fieldRequired t \<longrightarrow> map_of res (fieldName N t) \<noteq> None"
  shows "snd (decode a res (VStruct (pre @ (Name, fbTag, field) # post)) True fullName) \<noteq> None \<and>
    ((\<forall>(N, t, f) \<in> set pre. \<forall>val. map_of res (fieldName N t) = Some val \<longrightarrow>
        snd (decodeField a val f True (\<not> isExported N)
              ((if fullName \<noteq> [] then fullName @ ''.'' else fullName) @ fieldName N t)) = None)
     \<longrightarrow> snd (decode a res (VStruct (pre @ (Name, fbTag, field) # post)) True fullName)
           = Some (MissingRequiredField
               ((if fullName \<noteq> [] then fullName @ ''.'' else fullName) @ fieldName Name fbTag))) \<and>
    (\<forall>pre1 N0 t0 f0 pre2 val0 e.
       pre = pre1 @ (N0, t0, f0) # pre2 \<longrightarrow>
       (\<forall>(N, t, f) \<in> set pre1. \<forall>val. map_of res (fieldName N t) = Some val \<longrightarrow>
          snd (decodeField a val f True (\<not> isExported N)
                ((if fullName \<noteq> [] then fullName @ ''.'' else fullName) @ fieldName N t)) = None) \<longrightarrow>
       map_of res (fieldName N0 t0) = Some val0 \<longrightarrow>
       snd (decodeField a val0 f0 True (\<not> isExported N0)
             ((if fullName \<noteq> [] then fullName @ ''.'' else fullName) @ fieldName N0 t0)) = Some e \<longrightarrow>
       snd (decode a res (VStruct (pre @ (Name, fbTag, field) # post)) True fullName) = Some e)"
proof -
  let ?p = "if fullName \<noteq> [] then fullName @ ''.'' else fullName"
  let ?ms = "pre @ (Name, fbTag, field) # post"
  have eq: "snd (decode a res (VStruct ?ms) True fullName) = snd (decodeFields a res ?p ?ms)"
    by (simp add: decode.simps split: prod.splits)
  have "snd (decodeFields a res ?p ?ms) \<noteq> None"
    using assms(1,2) by (rule decodeFields_missing_fails)
  moreover have "snd (decodeFields a res ?p ?ms)
      = Some (MissingRequiredField (?p @ fieldName Name fbTag))"
    if "\<forall>(N, t, f) \<in> set pre. \<forall>val. map_of res (fieldName N t) = Some val \<longrightarrow>
        snd (decodeField a val f True (\<not> isExported N) (?p @ fieldName N t)) = None"
    using assms that by (rule decodeFields_first_missing)
  moreover have "snd (decodeFields a res ?p ?ms) = Some e"
    if split: "pre = pre1 @ (N0, t0, f0) # pre2"
      and ok: "\<forall>(N, t, f) \<in> set pre1. \<forall>val. map_of res (fieldName N t) = Some val \<longrightarrow>
          snd (decodeField a val f True (\<not> isExported N) (?p @ fieldName N t)) = None"
      and present: "map_of res (fieldName N0 t0) = Some val0"
      and fails: "snd (decodeField a val0 f0 True (\<not> isExported N0) (?p @ fieldName N0 t0)) = Some e"
    for pre1 N0 t0 f0 pre2 val0 e
  proof -
    have req: "\<forall>(N, t, f) \<in> set pre1. fieldRequired t \<longrightarrow> map_of res (fieldName N t) \<noteq> None"
      using assms(3) split by auto
    have "snd (decodeFields a res ?p (pre1 @ (N0, t0, f0) # (pre2 @ (Name, fbTag, field) # post)))
        = Some e"
      using req ok present fails by (rule decodeFields_earlier_error)
    then show ?thesis using split by simp
  qed
  ultimately show ?thesis
    unfolding eq by blast
qed

theorem C3_missing_required_field_witness:
  "snd (decode Arch64 [(''a'', JBool True)]
         (VStruct ([(''A'', [], VBool False)] @
            (''B'', '',required'', VString []) # [(''C'', [], VBool False)]))
         True ''outer'')
     = Some (MissingRequiredField ''outer.b'') \<and>
   snd (decode Arch64 [(''a'', JString ''x'')]
         (VStruct ([(''A'', [], VBool False)] @
            (''B'', '',required'', VString []) # [(''C'', [], VBool False)]))
         True ''outer'')
     = Some (NotBool ''outer.a'')"
proof -
  have 1: "snd (decodeField Arch64 (JBool True) (VBool False) True (\<not> isExported ''A'')
              ((if ''outer'' \<noteq> [] then ''outer'' @ ''.'' else ''outer'') @ fieldName ''A'' []))
           = None"
    by (simp add: field_defs decodeField.simps decodeValue.simps)
  have 2: "snd (decodeField Arch64 (JString ''x'') (VBool False) True (\<not> isExported ''A'')
              ((if ''outer'' \<noteq> [] then ''outer'' @ ''.'' else ''outer'') @ fieldName ''A'' []))
           = Some (NotBool ''outer.a'')"
    by (simp add: field_defs decodeField.simps decodeValue.simps camel_A)
  have h: "fieldRequired '',required''" "fieldName ''B'' '',required'' = ''b''"
    "fieldName ''A'' [] = ''a''"
    by (simp_all add: field_defs camel_A camel_B)
  note a = C3_missing_required_field [of "'',required''" "[(''a'', JBool True)]" "''B''"
      "[(''A'', [], VBool False)]" Arch64 "VString []" "[(''C'', [], VBool False)]" "''outer''"]
  note b = C3_missing_required_field [of "'',required''" "[(''a'', JString ''x'')]" "''B''"
      "[(''A'', [], VBool False)]" Arch64 "VString []" "[(''C'', [], VBool False)]" "''outer''"]
  have "snd (decode Arch64 [(''a'', JBool True)]
         (VStruct ([(''A'', [], VBool False)] @
            (''B'', '',required'', VString []) # [(''C'', [], VBool False)]))
         True ''outer'') = Some (MissingRequiredField ''outer.b'')"
    using a 1 h by simp
  moreover have "snd (decode Arch64 [(''a'', JString ''x'')]
         (VStruct ([(''A'', [], VBool False)] @
            (''B'', '',required'', VString []) # [(''C'', [], VBool False)]))
         True ''outer'') = Some (NotBool ''outer.a'')"
  proof -
    from b h have "\<forall>pre1 N0 t0 f0 pre2 val0 e.
       [(''A'', [], VBool False)] = pre1 @ (N0, t0, f0) # pre2 \<longrightarrow>
       (\<forall>(N, t, f) \<in> set pre1. \<forall>val. map_of [(''a'', JString ''x'')] (fieldName N t) = Some val \<longrightarrow>
          snd (decodeField Arch64 val f True (\<not> isExported N)
                ((if ''outer'' \<noteq> [] then ''outer'' @ ''.'' else ''outer'') @ fieldName N t)) = None) \<longrightarrow>
       map_of [(''a'', JString ''x'')] (fieldName N0 t0) = Some val0 \<longrightarrow>
       snd (decodeField Arch64 val0 f0 True (\<not> isExported N0)
             ((if ''outer'' \<noteq> [] then ''outer'' @ ''.'' else ''outer'') @ fieldName N0 t0)) = Some e \<longrightarrow>
       snd (decode Arch64 [(''a'', JString ''x'')]
         (VStruct ([(''A'', [], VBool False)] @
            (''B'', '',required'', VString []) # [(''C'', [], VBool False)]))
         True ''outer'') = Some e"
      by simp
    from this [rule_format, of "[]" "''A''" "[]" "VBool False" "[]" "JString ''x''"
        "NotBool ''outer.a''"] 2 h
    show ?thesis by simp
  qed
  ultimately show ?thesis by simp
qed

section \<open>Pointer fields\<close>

text \<open>
  Claim C4, as it is stated: a pointer field whose key is missing from the source is reset
  to nil, and one whose key is present is allocated and decoded into. With the field
  \<open>P *string\<close> pointing to \<open>"old"\<close>, the decode of the empty source leaves the pointer as
  it is, and the decode of \<open>{"p": null}\<close>, where the key is present, resets it to nil.
\<close>

theorem C4_missing_key_counterexample:
  "map_of [] (fieldName ''P'' []) = (None :: jvalue option) \<and>
   Decode Arch64 [] (holder (Some (VString ''old''))) = (holder (Some (VString ''old'')), None) \<and>
   Decode Arch64 [(''p'', JNil)] (holder (Some (VString ''old''))) = (holder None, None)"
  by (simp add: holder_def Decode_def decode_simps field_defs camel_P)

text \<open>
  Claim C4, amended. For a pointer field that is not marked required and whose key is
  missing from the source, the loop over the fields leaves the pointer as it is and goes
  on to the next field. For a pointer that can be set: when the source value is null (the
  key is present and bound to null) the decoder resets the pointer to nil and returns no
  error; when the source value is not null, it decodes the value into what the pointer
  points to, a newly allocated zero value if the pointer was nil, and the pointer points to
  that afterwards.
\<close>

theorem C4_pointer_member:
  "(map_of res (fieldName Name fbTag) = None \<longrightarrow> \<not> fieldRequired fbTag \<longrightarrow>
      decodeFields a res p ((Name, fbTag, VPtr t ptr) # ms) =
        (case decodeFields a res p ms of
           (ms1, err) \<Rightarrow> ((Name, fbTag, VPtr t ptr) # ms1, err))) \<and>
   decodeField a JNil (VPtr t ptr) True False fullName = (VPtr t None, None) \<and>
   (val \<noteq> JNil \<longrightarrow>
      decodeField a val (VPtr t ptr) True False fullName =
        (case decodeValue a val (case ptr of None \<Rightarrow> zero t | Some e \<Rightarrow> e) True fullName of
           (e1, err) \<Rightarrow> (VPtr t (Some e1), err)))"
  by (cases ptr) (simp_all add: decodeField.simps)

theorem C4_pointer_member_witness:
  "decodeFields Arch64 [] [] [(''P'', [], VPtr TString (Some (VString ''old'')))]
     = ([(''P'', [], VPtr TString (Some (VString ''old'')))], None) \<and>
   decodeField Arch64 JNil (VPtr TString (Some (VString ''old''))) True False ''p''
     = (VPtr TString None, None) \<and>
   decodeField Arch64 (JString ''new'') (VPtr TString None) True False ''p''
     = (VPtr TString (Some (VString ''new'')), None)"
  using C4_pointer_member [of "[]" "''P''" "[]" Arch64 "[]" TString "Some (VString ''old'')"
        "[]" "''p''" "JString ''new''"]
    C4_pointer_member [of "[]" "''P''" "[]" Arch64 "[]" TString None "[]" "''p''"
        "JString ''new''"]
  by (simp add: field_defs decodeValue.simps)

section \<open>Dotted paths and lists of segments\<close>

lemma Split_no_dot: "CHR ''.'' \<notin> set x \<Longrightarrow> Split x = [x]"
  by (induction x) auto

lemma Split_append_dot: "CHR ''.'' \<notin> set x \<Longrightarrow> Split (x @ CHR ''.'' # rest) = x # Split rest"
  by (induction x) auto

lemma Split_Join:
  "segs \<noteq> [] \<Longrightarrow> \<forall>s \<in> set segs. CHR ''.'' \<notin> set s \<Longrightarrow> Split (Join segs) = segs"
  by (induction segs rule: Join.induct) (simp_all add: Split_no_dot Split_append_dot)

lemma Join_eq_Nil: "Join segs = [] \<longleftrightarrow> segs = [] \<or> segs = [[]]"
  by (induction segs rule: Join.induct) simp_all

text \<open>
  Claim C8, as it is stated: for segments without a dot, \<open>Get\<close> of the joined path and
  \<open>GetField\<close> of the segments agree. The list of the one empty segment has no dot and
  joins to the empty path: \<open>Get\<close> returns the root for it, and \<open>GetField\<close> looks the key
  \<open>""\<close> up, which the empty result does not have.
\<close>

theorem C8_empty_segment_counterexample:
  "CHR ''.'' \<notin> set [] \<and> Join [[]] = [] \<and>
   Get Arch64 [] (Join [[]]) = Ret (JObject []) \<and> GetField Arch64 [] [[]] = Ret JNil"
  by (simp add: Get_def GetField_def get_def)

text \<open>
  Claim C8, amended: for every result and every list of segments none of which has a dot,
  other than the list of the one empty segment, \<open>Get\<close> of the segments joined by dots and
  \<open>GetField\<close> of the segments return the same (the same value, nil, or both panic); and the
  empty path and the empty list of segments both return the root.
\<close>

theorem C8_get_agree:
  assumes "\<forall>s \<in> set segs. CHR ''.'' \<notin> set s" and "segs \<noteq> [[]]"
  shows "Get a res (Join segs) = GetField a res segs \<and>
         Get a res [] = Ret (JObject res) \<and> GetField a res [] = Ret (JObject res)"
proof (cases "segs = []")
  case True
  then show ?thesis by (simp add: Get_def GetField_def)
next
  case False
  with assms(2) have "Join segs \<noteq> []" by (simp add: Join_eq_Nil)
  moreover from False assms(1) have "Split (Join segs) = segs" by (rule Split_Join)
  ultimately show ?thesis using False by (simp add: Get_def GetField_def)
qed

theorem C8_get_agree_witness:
  "Get Arch64 [(''a'', JObject [(''b'', JArray [JInt 1, JInt 2, JObject [(''c'', JString ''v'')]])])] ''a.b.2.c''
     = Ret (JString ''v'') \<and>
   GetField Arch64 [(''a'', JObject [(''b'', JArray [JInt 1, JInt 2, JObject [(''c'', JString ''v'')]])])]
       [''a'', ''b'', ''2'', ''c'']
     = Ret (JString ''v'')"
  using C8_get_agree [of "[''a'', ''b'', ''2'', ''c'']" Arch64
      "[(''a'', JObject [(''b'', JArray [JInt 1, JInt 2, JObject [(''c'', JString ''v'')]])])]"]
  by (simp add: GetField_def get_def strconv_defs)

section \<open>A field bound to null\<close>

text \<open>
  Claim C10, as it is stated: whenever a key of the result is bound to null, \<open>Get\<close> of
  that field returns nil and \<open>DecodeField\<close> fails with "field doesn't exist in result".
  For the key \<open>""\<close> bound to null, \<open>Get\<close> returns the whole result, and \<open>DecodeField\<close>
  decodes the whole result into the target, here a \<open>map[string]interface{}\<close>, without an
  error.
\<close>

theorem C10_empty_key_counterexample:
  "map_of [([], JNil)] [] = Some JNil \<and>
   Get Arch64 [([], JNil)] [] = Ret (JObject [([], JNil)]) \<and>
   DecodeField Arch64 [([], JNil)] [] (VPtr (TMap TString TInterface) (Some (VMap TString TInterface None)))
     = (VPtr (TMap TString TInterface) (Some (VMap TString TInterface (Some [([], VIface JNil)]))), None)"
  by (simp add: Get_def DecodeField_def decode_simps)

text \<open>
  Claim C10, amended: for a key that is not empty and has no dot, bound to null in the
  result, \<open>Get\<close> of that key returns nil and \<open>DecodeField\<close> of it fails with the error
  "field doesn't exist in result" and leaves the target as it was: the same as for a key
  that the result does not have.
\<close>

theorem C10_null_field:
  assumes "field \<noteq> []" and "CHR ''.'' \<notin> set field"
    and "map_of res field = Some JNil \<or> map_of res field = None"
  shows "Get a res field = Ret JNil \<and> DecodeField a res field v = (v, Some (FieldDoesNotExist field))"
  using assms by (auto simp: Get_def DecodeField_def get_def Split_no_dot)

theorem C10_null_field_witness:
  "Get Arch64 [(''k'', JNil)] ''k'' = Ret JNil \<and>
   DecodeField Arch64 [(''k'', JNil)] ''k'' (VPtr TString None) = (VPtr TString None, Some (FieldDoesNotExist ''k''))"
  using C10_null_field [of "''k''" "[(''k'', JNil)]" Arch64 "VPtr TString None"]
  by simp

section \<open>Integer targets: the width of the field\<close>

lemma sint_eq_uint_64:
  assumes "uint (w :: 64 word) < 2 ^ 63"
  shows "sint w = uint w"
proof -
  have "- (2 ^ 63) \<le> (0 :: int)" by simp
  then have "- (2 ^ 63) \<le> uint w"
    using uint_ge_0 [of w] by (rule order_trans)
  then have "signed_take_bit 63 (uint w) = uint w"
    using assms by (rule signed_take_bit_int_eq_self)
  then show ?thesis
    by (simp add: sint_uint)
qed

lemma uint_eq_sint_64: "0 \<le> sint (w :: 64 word) \<Longrightarrow> uint w = sint w"
proof -
  assume "0 \<le> sint w"
  moreover have "sint w < 2 ^ 64"
    using sint_lt [of w] by simp
  ultimately show ?thesis
    by (simp add: uint_sint take_bit_int_eq_self)
qed

lemma SetInt_eq: "- (2 ^ (b - 1)) \<le> sint w \<Longrightarrow> sint w < 2 ^ (b - 1) \<Longrightarrow> SetInt b w = sint w"
  by (simp add: SetInt_def signed_take_bit_int_eq_self)

lemma SetInt_uint:
  assumes "uint w < 2 ^ (b - 1)" and "b \<le> 64"
  shows "SetInt b w = uint w"
proof -
  have "(2 :: int) ^ (b - 1) \<le> 2 ^ 63"
    using assms(2) by (intro power_increasing) simp_all
  with assms(1) have "uint w < 2 ^ 63" by linarith
  then have s: "sint w = uint w" by (rule sint_eq_uint_64)
  have "- (2 ^ (b - 1)) \<le> (0 :: int)" by simp
  then have "- (2 ^ (b - 1)) \<le> uint w"
    using uint_ge_0 [of w] by (rule order_trans)
  then show ?thesis
    using assms(1) s by (simp add: SetInt_eq)
qed

lemma SetUint_eq: "uint w < 2 ^ b \<Longrightarrow> SetUint b w = uint w"
  by (simp add: SetUint_def take_bit_int_eq_self)

lemma showNat_8: "showNat 8 = ''8''" by code_simp
lemma showNat_16: "showNat 16 = ''16''" by code_simp
lemma showNat_32: "showNat 32 = ''32''" by code_simp
lemma showNat_64: "showNat 64 = ''64''" by code_simp

lemmas table_defs = isSigned_def bitsOf_def minOf_def maxOf_def typeName_def lexemeTypeName_def
  IntSize_def showNat_8 showNat_16 showNat_32 showNat_64

lemma decodeInteger_JInt:
  "decodeInteger a k (JInt w) fn =
     (if minOf a k \<le> sint w \<and> sint w \<le> maxOf a k then Inr (Some (sint w))
      else Inl (RangeExceeded fn (typeName k)))"
proof -
  have r: "- (2 ^ 63) \<le> sint w" "sint w < 2 ^ 63" "sint w \<le> 9223372036854775807"
    using sint_ge [of w] sint_lt [of w] by simp_all
  show ?thesis
    using r
    by (cases k; cases a)
       (auto simp: integer_defs table_defs SetInt_eq SetUint_eq uint_eq_sint_64)
qed

lemma decodeInteger_JUint:
  "decodeInteger a k (JUint w) fn =
     (if uint w \<le> maxOf a k then Inr (Some (uint w))
      else Inl (RangeExceeded fn (typeName k)))"
proof -
  have r: "0 \<le> uint w" "uint w < 2 ^ 64" "uint w \<le> 18446744073709551615"
    using uint_lt2p [of w] by simp_all
  show ?thesis
    using r
    by (cases k; cases a)
       (auto simp: integer_defs table_defs SetInt_uint SetUint_eq)
qed

section \<open>Integer targets: decimal lexemes\<close>

lemma digitsValue_ge: "n \<le> digitsValue n s"
proof (induction s arbitrary: n)
  case Nil
  show ?case by simp
next
  case (Cons c cs)
  have "n \<le> n * 10 + digitVal c" by simp
  also have "\<dots> \<le> digitsValue (n * 10 + digitVal c) cs" by (rule Cons.IH)
  finally show ?case by simp
qed

lemma digitsValue_snoc: "digitsValue n (s @ [c]) = digitsValue n s * 10 + digitVal c"
  by (induction s arbitrary: n) simp_all

lemma parseUintLoop_digits:
  assumes "\<forall>c \<in> set s. isDigit c" and "mx < 2 ^ 64" and "n \<le> mx"
  shows "parseUintLoop mx n s =
     (if digitsValue n s \<le> mx then Inr (digitsValue n s) else Inl ErrRange)"
  using assms(1,3)
proof (induction s arbitrary: n)
  case Nil
  then show ?case by simp
next
  case (Cons c cs)
  let ?n1 = "n * 10 + digitVal c"
  have ge: "?n1 \<le> digitsValue ?n1 cs" by (rule digitsValue_ge)
  have d: "isDigit c" using Cons.prems by simp
  have ih: "parseUintLoop mx ?n1 cs =
     (if digitsValue ?n1 cs \<le> mx then Inr (digitsValue ?n1 cs) else Inl ErrRange)"
    if "?n1 \<le> mx"
    using Cons.prems that by (intro Cons.IH) simp_all
  show ?case
  proof (cases "cutoff \<le> n")
    case True
    then have "2 ^ 64 \<le> ?n1" by (simp add: cutoff_def)
    with ge assms(2) have "mx < digitsValue ?n1 cs" by linarith
    with True d show ?thesis by simp
  next
    case False
    show ?thesis
    proof (cases "2 ^ 64 \<le> ?n1 \<or> mx < ?n1")
      case True
      with ge assms(2) have "mx < digitsValue ?n1 cs" by linarith
      with True False d show ?thesis by (simp add: Let_def)
    next
      case n1: False
      then have "?n1 \<le> mx" by simp
      from ih [OF this] n1 False d show ?thesis by (simp add: Let_def)
    qed
  qed
qed

lemma isDigit_char_of: "d < 10 \<Longrightarrow> isDigit (char_of (48 + d :: nat))"
  by (simp add: isDigit_def of_char_of)

lemma digitVal_char_of: "d < 10 \<Longrightarrow> digitVal (char_of (48 + d :: nat)) = d"
  by (simp add: digitVal_def of_char_of)

lemma showNat_digits: "\<forall>c \<in> set (showNat n). isDigit c"
proof (induction n rule: showNat.induct)
  case (1 n)
  show ?case
  proof (cases "n < 10")
    case True
    then show ?thesis by (subst showNat.simps) (simp add: isDigit_char_of)
  next
    case False
    with 1 show ?thesis by (subst showNat.simps) (simp add: isDigit_char_of)
  qed
qed

lemma showNat_not_Nil: "showNat n \<noteq> []"
  by (subst showNat.simps) simp

lemma digitsValue_showNat: "digitsValue 0 (showNat n) = n"
proof (induction n rule: showNat.induct)
  case (1 n)
  show ?case
  proof (cases "n < 10")
    case True
    then show ?thesis by (subst showNat.simps) (simp add: digitVal_char_of)
  next
    case False
    with 1 show ?thesis
      by (subst showNat.simps) (simp add: digitsValue_snoc digitVal_char_of)
  qed
qed

lemma ParseUint_showNat:
  assumes "0 < b" and "b \<le> 64"
  shows "ParseUint a (showNat m) b = (if m < 2 ^ b then Inr m else Inl ErrRange)"
proof -
  have "(2 :: nat) ^ b \<le> 2 ^ 64"
    using assms(2) by (intro power_increasing) simp_all
  then have mx: "(2 :: nat) ^ b - 1 < 2 ^ 64" by simp
  have "0 < (2 :: nat) ^ b" by simp
  then have "(m \<le> 2 ^ b - 1) = (m < 2 ^ b)" by arith
  then show ?thesis
    using assms(1) parseUintLoop_digits [OF showNat_digits mx, of 0 m]
    by (simp add: ParseUint_def showNat_not_Nil digitsValue_showNat)
qed

lemma hd_showNat_digit: "isDigit (hd (showNat n))"
  using showNat_digits [of n] showNat_not_Nil [of n] by (cases "showNat n") simp_all

lemma not_digit_sign: "\<not> isDigit (CHR ''-'')" "\<not> isDigit (CHR ''+'')"
  by (simp_all add: isDigit_def)

lemma hd_showNat_no_sign: "hd (showNat n) \<noteq> CHR ''-''" "hd (showNat n) \<noteq> CHR ''+''"
  using hd_showNat_digit [of n] not_digit_sign by auto

lemma ParseInt_showInt:
  assumes "0 < b" and "b \<le> 64"
  shows "ParseInt a (showInt m) b =
     (if - (2 ^ (b - 1)) \<le> m \<and> m < 2 ^ (b - 1) then Inr m else Inl ErrRange)"
proof -
  have half: "(2 :: nat) ^ (b - 1) < 2 ^ b"
    using assms(1) by (intro power_strict_increasing) simp_all
  show ?thesis
  proof (cases "m < 0")
    case True
    define k where "k = nat (- m)"
    have m: "m = - int k" using True by (simp add: k_def)
    have s: "showInt m = CHR ''-'' # showNat k" using True by (simp add: showInt_def k_def)
    have pos: "(0 :: int) < 2 ^ (b - 1)" by simp
    have "(int k \<le> 2 ^ (b - 1)) = (k \<le> 2 ^ (b - 1))"
      using of_nat_le_iff [of k "2 ^ (b - 1)", where ?'a = int] by simp
    then have i: "(- (2 ^ (b - 1)) \<le> m) = (k \<le> 2 ^ (b - 1))"
      unfolding m by simp
    have up: "- int k < 2 ^ (b - 1)"
      using pos by linarith
    have kb: "k \<le> 2 ^ (b - 1) \<Longrightarrow> k < 2 ^ b"
      using half by linarith
    with i True assms up show ?thesis
      unfolding s
      by (auto simp: ParseInt_def ParseUint_showNat m split: numError.splits)
  next
    case False
    define k where "k = nat m"
    have m: "m = int k" using False by (simp add: k_def)
    have s: "showInt m = showNat k" using False by (simp add: showInt_def k_def)
    have pos: "(0 :: int) < 2 ^ (b - 1)" by simp
    have i: "(m < 2 ^ (b - 1)) = (k < 2 ^ (b - 1))"
      unfolding m using of_nat_less_iff [of k "2 ^ (b - 1)", where ?'a = int] by simp
    have lo: "- (2 ^ (b - 1)) \<le> int k"
      using pos by linarith
    have kb: "k < 2 ^ (b - 1) \<Longrightarrow> k < 2 ^ b"
      using half by linarith
    with i False assms lo show ?thesis
      unfolding s
      by (auto simp: ParseInt_def ParseUint_showNat showNat_not_Nil hd_showNat_no_sign m
            split: numError.splits)
  qed
qed

lemma ParseUint_showInt:
  assumes "0 < b" and "b \<le> 64"
  shows "ParseUint a (showInt m) b =
     (if m < 0 then Inl ErrSyntax else if m < 2 ^ b then Inr (nat m) else Inl ErrRange)"
proof (cases "m < 0")
  case True
  then show ?thesis
    by (simp add: showInt_def ParseUint_def not_digit_sign)
next
  case False
  have "(m < 2 ^ b) = (nat m < 2 ^ b)"
    using False of_nat_less_iff [of "nat m" "2 ^ b", where ?'a = int] by simp
  with False assms show ?thesis
    by (simp add: showInt_def ParseUint_showNat)
qed

lemma parseUintLoop_le: "parseUintLoop mx n s = Inr m \<Longrightarrow> n \<le> mx \<Longrightarrow> m \<le> mx"
  by (induction s arbitrary: n) (auto simp: Let_def split: if_splits)

lemma ParseUint_bound:
  assumes "ParseUint a s b = Inr m" and "0 < b"
  shows "m < 2 ^ b"
proof -
  from assms have "parseUintLoop (2 ^ b - 1) 0 s = Inr m"
    by (simp add: ParseUint_def split: if_splits)
  then have "m \<le> 2 ^ b - 1"
    by (rule parseUintLoop_le) simp
  moreover have "0 < (2 :: nat) ^ b" by simp
  ultimately show ?thesis by arith
qed

lemma ParseInt_bound:
  assumes "ParseInt a s b = Inr m" and "0 < b"
  shows "- (2 ^ (b - 1)) \<le> m \<and> m < 2 ^ (b - 1)"
proof -
  define neg where "neg = (hd s = CHR ''-'')"
  define s1 where "s1 = (if hd s = CHR ''+'' \<or> hd s = CHR ''-'' then tl s else s)"
  have pos: "(0 :: int) < 2 ^ (b - 1)" by simp
  have ne: "s \<noteq> []"
    using assms(1) by (auto simp: ParseInt_def)
  obtain un where un: "ParseUint a s1 b = Inr un"
    using assms ne
    by (cases "ParseUint a s1 b")
       (auto simp: ParseInt_def s1_def Let_def split: numError.splits)
  have r: "(if \<not> neg \<and> 2 ^ (b - 1) \<le> un then Inl ErrRange
            else if neg \<and> 2 ^ (b - 1) < un then Inl ErrRange
            else Inr (if neg then - int un else int un)) = (Inr m :: numError + int)"
    using assms ne un unfolding ParseInt_def neg_def s1_def
    by (auto simp: Let_def split: if_splits)
  show ?thesis
  proof (cases neg)
    case True
    with r have "un \<le> 2 ^ (b - 1)" and m: "m = - int un"
      by (auto split: if_splits)
    then have "int un \<le> 2 ^ (b - 1)"
      using of_nat_le_iff [of un "2 ^ (b - 1)", where ?'a = int] by simp
    moreover have "- int un < 2 ^ (b - 1)"
      using pos by linarith
    ultimately show ?thesis unfolding m by simp
  next
    case False
    with r have "un < 2 ^ (b - 1)" and m: "m = int un"
      by (auto split: if_splits)
    then have "int un < 2 ^ (b - 1)"
      using of_nat_less_iff [of un "2 ^ (b - 1)", where ?'a = int] by simp
    moreover have "- (2 ^ (b - 1)) \<le> int un"
      using pos by linarith
    ultimately show ?thesis unfolding m by simp
  qed
qed

lemma SetInt_of_int:
  assumes "- (2 ^ (b - 1)) \<le> m" and "m < 2 ^ (b - 1)" and "b \<le> 64"
  shows "SetInt b (word_of_int m) = m"
proof -
  have le: "(2 :: int) ^ (b - 1) \<le> 2 ^ 63"
    using assms(3) by (intro power_increasing) simp_all
  with assms(1,2) have "- (2 ^ 63) \<le> m" "m < 2 ^ 63" by linarith+
  then have "signed_take_bit 63 m = m" by (rule signed_take_bit_int_eq_self)
  then have "sint (word_of_int m :: 64 word) = m" by (simp add: sint_sbintrunc')
  with assms(1,2) show ?thesis by (simp add: SetInt_def signed_take_bit_int_eq_self)
qed

lemma SetUint_of_nat:
  assumes "m < 2 ^ b" and "b \<le> 64"
  shows "SetUint b (of_nat m) = int m"
proof -
  have "(2 :: nat) ^ b \<le> 2 ^ 64"
    using assms(2) by (intro power_increasing) simp_all
  with assms(1) have "m < 2 ^ 64" by linarith
  then have u: "uint (of_nat m :: 64 word) = int m"
    by (simp add: unsigned_of_nat take_bit_nat_eq_self)
  have "int m < 2 ^ b"
    using assms(1) of_nat_less_iff [of m "2 ^ b", where ?'a = int] by simp
  with u show ?thesis by (simp add: SetUint_def take_bit_int_eq_self)
qed

lemma SetInt_ParseInt:
  "ParseInt a s b = Inr m \<Longrightarrow> 0 < b \<Longrightarrow> b \<le> 64 \<Longrightarrow> SetInt b (word_of_int m) = m"
  using ParseInt_bound [of a s b m] by (simp add: SetInt_of_int)

lemma SetUint_ParseUint:
  "ParseUint a s b = Inr m \<Longrightarrow> 0 < b \<Longrightarrow> b \<le> 64 \<Longrightarrow> SetUint b (of_nat m) = int m"
  using ParseUint_bound [of a s b m] by (simp add: SetUint_of_nat)

lemma decodeInteger_JString: "decodeInteger a k (JString s) fn = Inl (StringNotNumber fn)"
  by (cases k) (simp_all add: integer_defs)

lemma decodeInteger_JNumber:
  "decodeInteger a k (JNumber s) fn =
     (case parseLexeme a k s of
        Inl err \<Rightarrow> Inl (InvalidNumericLexeme fn (lexemeTypeName a k))
      | Inr m \<Rightarrow> Inr (Some m))"
  by (cases k; cases a)
     (auto simp: integer_defs parseLexeme_def table_defs SetInt_ParseInt SetUint_ParseUint
        split: sum.splits)

lemma decodeInteger_showInt:
  "decodeInteger a k (JNumber (showInt m)) fn =
     (if minOf a k \<le> m \<and> m \<le> maxOf a k then Inr (Some m)
      else Inl (InvalidNumericLexeme fn (lexemeTypeName a k)))"
  by (cases k; cases a)
     (auto simp: decodeInteger_JNumber parseLexeme_def table_defs ParseInt_showInt
        ParseUint_showInt)

lemma decodeField_VNum:
  "val \<noteq> JNil \<Longrightarrow>
   decodeField a val (VNum k n) True False fn =
     (case decodeInteger a k val fn of
        Inl err \<Rightarrow> (VNum k n, Some err)
      | Inr None \<Rightarrow> (VIndeterminate k, None)
      | Inr (Some n') \<Rightarrow> (VNum k n', None))"
  by (simp add: decodeField.simps decodeValue.simps)

lemma showInt_127: "showInt 127 = ''127''" by code_simp
lemma showInt_128: "showInt 128 = ''128''" by code_simp
lemma showInt_m128: "showInt (- 128) = ''-128''" by code_simp
lemma showInt_m129: "showInt (- 129) = ''-129''" by code_simp


section \<open>Integer targets: float sources\<close>

lemma truncToZero_bounds:
  assumes "of_int lo \<le> q" and "q \<le> of_int hi"
  shows "lo \<le> truncToZero q \<and> truncToZero q \<le> hi"
proof (cases "q < 0")
  case True
  have "of_int lo \<le> (of_int \<lceil>q\<rceil> :: rat)"
    using assms(1) le_of_int_ceiling [of q] by (rule order_trans)
  then have "lo \<le> \<lceil>q\<rceil>" by simp
  moreover have "\<lceil>q\<rceil> \<le> hi"
    using assms(2) by (simp add: ceiling_le_iff)
  ultimately show ?thesis using True by (simp add: truncToZero_def)
next
  case False
  have "(of_int \<lfloor>q\<rfloor> :: rat) \<le> of_int hi"
    using of_int_floor_le [of q] assms(2) by (rule order_trans)
  then have "\<lfloor>q\<rfloor> \<le> hi" by simp
  moreover have "lo \<le> \<lfloor>q\<rfloor>"
    using assms(1) by (simp add: le_floor_iff)
  ultimately show ?thesis using False by (simp add: truncToZero_def)
qed

lemma SetUint_of_int:
  assumes "0 \<le> t" and "t < 2 ^ b" and "b \<le> 64"
  shows "SetUint b (word_of_int t) = t"
proof -
  have "SetUint b (of_nat (nat t)) = int (nat t)"
  proof (rule SetUint_of_nat)
    show "nat t < 2 ^ b"
      using assms(1,2) of_nat_less_iff [of "nat t" "2 ^ b", where ?'a = int] by simp
  qed (rule assms(3))
  then show ?thesis using assms(1) by simp
qed

lemma float_signed:
  assumes "- (2 ^ (b - 1)) \<le> q" and "q \<le> 2 ^ (b - 1) - 1" and "0 < b" and "b \<le> 64"
  shows "map_option (SetInt b) (toInt64 (FFinite q)) = Some (truncToZero q)"
proof -
  have "of_int (- (2 ^ (b - 1))) \<le> q" "q \<le> of_int (2 ^ (b - 1) - 1)"
    using assms(1,2) by simp_all
  then have t: "- (2 ^ (b - 1)) \<le> truncToZero q" "truncToZero q \<le> 2 ^ (b - 1) - 1"
    using truncToZero_bounds by blast+
  have le: "(2 :: int) ^ (b - 1) \<le> 2 ^ 63"
    using assms(4) by (intro power_increasing) simp_all
  from t le have "- (2 ^ 63) \<le> truncToZero q" "truncToZero q < 2 ^ 63" by linarith+
  moreover from t have "truncToZero q < 2 ^ (b - 1)" by linarith
  ultimately show ?thesis
    using t(1) assms(4) by (simp add: toInt64_def SetInt_of_int)
qed

lemma float_unsigned:
  assumes "0 \<le> q" and "q \<le> 2 ^ b - 1" and "b \<le> 64"
  shows "map_option (SetUint b) (toUint64 (FFinite q)) = Some (truncToZero q)"
proof -
  have "of_int 0 \<le> q" "q \<le> of_int (2 ^ b - 1)"
    using assms(1,2) by simp_all
  then have t: "0 \<le> truncToZero q" "truncToZero q \<le> 2 ^ b - 1"
    using truncToZero_bounds by blast+
  have le: "(2 :: int) ^ b \<le> 2 ^ 64"
    using assms(3) by (intro power_increasing) simp_all
  from t le have "truncToZero q < 2 ^ 64" by linarith
  moreover from t have "truncToZero q < 2 ^ b" by linarith
  ultimately show ?thesis
    using t(1) assms(3) by (simp add: toUint64_def SetUint_of_int)
qed

lemma decodeInteger_JFloat:
  assumes "bitsOf a k = 64 \<longrightarrow> q \<le> of_int (maxOf a k) \<or> of_int (maxOf a k) + 1 < q"
  shows "decodeInteger a k (JFloat (FFinite q)) fn =
     (if of_int (minOf a k) \<le> q \<and> q \<le> of_int (maxOf a k) then Inr (Some (truncToZero q))
      else Inl (RangeExceeded fn (typeName k)))"
  using assms
    float_signed [of 8 q] float_signed [of 16 q] float_signed [of 32 q] float_signed [of 64 q]
    float_unsigned [of q 8] float_unsigned [of q 16] float_unsigned [of q 32]
    float_unsigned [of q 64]
  by (cases k; cases a)
     (auto simp: integer_defs table_defs floatLess_def floatGreater_def)

text \<open>
  The float case of a target of 64 bits compares with the bound rounded to float64. The
  float \<open>2 ^ 63\<close> is one beyond the greatest int64 and is not greater than the rounded
  bound, and \<open>2 ^ 64\<close> likewise for uint64: the test lets them through, and the conversion
  stores a number that Go leaves to the implementation, with no error. A float that is not
  a number passes every comparison in the same way.
\<close>

lemma float_bound_rounded:
  "decodeField a (JFloat (FFinite 9223372036854775808)) (VNum KInt64 n) True False fn
     = (VIndeterminate KInt64, None) \<and>
   decodeField a (JFloat (FFinite 18446744073709551616)) (VNum KUint64 n) True False fn
     = (VIndeterminate KUint64, None) \<and>
   decodeField a (JFloat FNaN) (VNum KInt8 n) True False fn = (VIndeterminate KInt8, None)"
  by (simp add: decodeField_VNum integer_defs floatLess_def floatGreater_def toInt64_def
        toUint64_def truncToZero_def)


section \<open>Integer targets: the bounds\<close>

text \<open>
  Claim C1, as it is stated: a source number one beyond a bound of the target's width
  fails with the range error, never with a parse error. A \<open>json.Number\<close> one beyond the
  bound fails with the error of a lexeme that does not parse, "value is not a valid
  int8" for \<open>128\<close> and \<open>-129\<close> into an int8, "value is not a valid uint64" for
  \<open>18446744073709551616\<close> into a uint64.
\<close>

theorem C1_lexeme_counterexample:
  "decodeField Arch64 (JNumber ''128'') (VNum KInt8 0) True False ''f''
     = (VNum KInt8 0, Some (InvalidNumericLexeme ''f'' ''int8'')) \<and>
   decodeField Arch64 (JNumber ''-129'') (VNum KInt8 0) True False ''f''
     = (VNum KInt8 0, Some (InvalidNumericLexeme ''f'' ''int8'')) \<and>
   decodeField Arch64 (JNumber ''18446744073709551616'') (VNum KUint64 0) True False ''f''
     = (VNum KUint64 0, Some (InvalidNumericLexeme ''f'' ''uint64''))"
  by (simp add: decodeField_VNum integer_defs strconv_defs)

text \<open>
  Claim C1, amended. For every integer kind of the target, on either platform, into a
  field that can be set: a source of a signed kind with the value \<open>sint w\<close> is stored as
  it is when it lies between the least and the greatest number of the target's width, and
  fails with the range error otherwise, the field unchanged; the same for a source of an
  unsigned kind with the value \<open>uint u\<close>; a \<open>json.Number\<close> that is the decimal lexeme of
  an integer \<open>m\<close> is stored as \<open>m\<close> when \<open>m\<close> lies between the two bounds, and fails with
  the error of a lexeme that does not parse otherwise, the field unchanged; and a float
  source with the finite value \<open>q\<close> is stored with its fraction discarded when \<open>q\<close> lies
  between the two bounds, and fails with the range error otherwise, the field unchanged,
  where for a target of 64 bits \<open>q\<close> is at most the greatest number or more than one
  beyond it. So the two bounds themselves are stored exactly, and one beyond a bound is an
  error, the range error for a source of an integer kind or a float and the
  not-a-valid-integer error for a \<open>json.Number\<close>; nothing is clamped or wrapped. The
  amended claim says nothing of a float between the greatest number of 64 bits and one
  beyond it.
\<close>

theorem C1_integer_bounds:
  "decodeField a (JInt w) (VNum k n) True False fn =
     (if minOf a k \<le> sint w \<and> sint w \<le> maxOf a k then (VNum k (sint w), None)
      else (VNum k n, Some (RangeExceeded fn (typeName k)))) \<and>
   decodeField a (JUint u) (VNum k n) True False fn =
     (if uint u \<le> maxOf a k then (VNum k (uint u), None)
      else (VNum k n, Some (RangeExceeded fn (typeName k)))) \<and>
   decodeField a (JNumber (showInt m)) (VNum k n) True False fn =
     (if minOf a k \<le> m \<and> m \<le> maxOf a k then (VNum k m, None)
      else (VNum k n, Some (InvalidNumericLexeme fn (lexemeTypeName a k)))) \<and>
   ((bitsOf a k = 64 \<longrightarrow> q \<le> of_int (maxOf a k) \<or> of_int (maxOf a k) + 1 < q) \<longrightarrow>
    decodeField a (JFloat (FFinite q)) (VNum k n) True False fn =
      (if of_int (minOf a k) \<le> q \<and> q \<le> of_int (maxOf a k)
       then (VNum k (truncToZero q), None)
       else (VNum k n, Some (RangeExceeded fn (typeName k)))))"
  by (simp add: decodeField_VNum decodeInteger_JInt decodeInteger_JUint decodeInteger_showInt
        decodeInteger_JFloat)

theorem C1_integer_bounds_witness:
  "decodeField Arch64 (JNumber ''127'') (VNum KInt8 0) True False ''f'' = (VNum KInt8 127, None) \<and>
   decodeField Arch64 (JNumber ''-128'') (VNum KInt8 0) True False ''f'' = (VNum KInt8 (- 128), None) \<and>
   decodeField Arch64 (JNumber ''128'') (VNum KInt8 0) True False ''f''
     = (VNum KInt8 0, Some (InvalidNumericLexeme ''f'' ''int8'')) \<and>
   decodeField Arch64 (JNumber ''-129'') (VNum KInt8 0) True False ''f''
     = (VNum KInt8 0, Some (InvalidNumericLexeme ''f'' ''int8'')) \<and>
   decodeField Arch64 (JInt 127) (VNum KInt8 0) True False ''f'' = (VNum KInt8 127, None) \<and>
   decodeField Arch64 (JInt 128) (VNum KInt8 0) True False ''f''
     = (VNum KInt8 0, Some (RangeExceeded ''f'' ''int8'')) \<and>
   decodeField Arch64 (JUint 128) (VNum KInt8 0) True False ''f''
     = (VNum KInt8 0, Some (RangeExceeded ''f'' ''int8'')) \<and>
   decodeField Arch64 (JFloat (FFinite 127)) (VNum KInt8 0) True False ''f''
     = (VNum KInt8 127, None) \<and>
   decodeField Arch64 (JFloat (FFinite (- 128))) (VNum KInt8 0) True False ''f''
     = (VNum KInt8 (- 128), None) \<and>
   decodeField Arch64 (JFloat (FFinite 128)) (VNum KInt8 0) True False ''f''
     = (VNum KInt8 0, Some (RangeExceeded ''f'' ''int8'')) \<and>
   decodeField Arch64 (JFloat (FFinite (- 129))) (VNum KInt8 0) True False ''f''
     = (VNum KInt8 0, Some (RangeExceeded ''f'' ''int8'')) \<and>
   decodeField Arch64 (JFloat (FFinite 9223372036854774784)) (VNum KInt64 0) True False ''f''
     = (VNum KInt64 9223372036854774784, None) \<and>
   decodeField Arch64 (JFloat (FFinite 9223372036854777856)) (VNum KInt64 0) True False ''f''
     = (VNum KInt64 0, Some (RangeExceeded ''f'' ''int64''))"
  using C1_integer_bounds [of Arch64 127 KInt8 0 "''f''" 128 127 127]
    C1_integer_bounds [of Arch64 128 KInt8 0 "''f''" 128 128 128]
    C1_integer_bounds [of Arch64 128 KInt8 0 "''f''" 128 "- 128" "- 128"]
    C1_integer_bounds [of Arch64 128 KInt8 0 "''f''" 128 "- 129" "- 129"]
    C1_integer_bounds [of Arch64 0 KInt64 0 "''f''" 0 0 9223372036854774784]
    C1_integer_bounds [of Arch64 0 KInt64 0 "''f''" 0 0 9223372036854777856]
  by (simp add: table_defs showInt_127 showInt_128 showInt_m128 showInt_m129 truncToZero_def)

section \<open>Integer targets: string sources\<close>

text \<open>
  Claim C9: for every integer kind of the target, on either platform, into a field that can
  be set, an ordinary string fails with "value is string, not a number" and leaves the
  field unchanged; a \<open>json.Number\<close> is parsed in base 10 for the width of the target
  (\<open>strconv.ParseInt\<close> for a signed kind, \<open>strconv.ParseUint\<close> for an unsigned one), the
  number parsed is stored, and a lexeme that does not parse fails with "value is not a
  valid" and the name of the type (\<open>int\<close> or \<open>uint\<close> and the width), the field unchanged.
\<close>

theorem C9_string_sources:
  "decodeField a (JString s) (VNum k n) True False fn = (VNum k n, Some (StringNotNumber fn)) \<and>
   decodeField a (JNumber s) (VNum k n) True False fn =
     (case parseLexeme a k s of
        Inl err \<Rightarrow> (VNum k n, Some (InvalidNumericLexeme fn (lexemeTypeName a k)))
      | Inr m \<Rightarrow> (VNum k m, None))"
  by (simp add: decodeField_VNum decodeInteger_JString decodeInteger_JNumber split: sum.splits)

theorem C9_string_sources_witness:
  "decodeField Arch32 (JString ''12'') (VNum KInt 0) True False ''f''
     = (VNum KInt 0, Some (StringNotNumber ''f'')) \<and>
   decodeField Arch32 (JNumber ''12'') (VNum KInt 0) True False ''f'' = (VNum KInt 12, None) \<and>
   decodeField Arch32 (JNumber ''1x'') (VNum KInt 0) True False ''f''
     = (VNum KInt 0, Some (InvalidNumericLexeme ''f'' ''int32'')) \<and>
   decodeField Arch32 (JNumber ''-1'') (VNum KUint16 0) True False ''f''
     = (VNum KUint16 0, Some (InvalidNumericLexeme ''f'' ''uint16''))"
  using C9_string_sources [of Arch32 "''12''" KInt 0 "''f''"]
    C9_string_sources [of Arch32 "''1x''" KInt 0 "''f''"]
    C9_string_sources [of Arch32 "''-1''" KUint16 0 "''f''"]
  by (simp add: parseLexeme_def table_defs ParseInt_def ParseUint_def isDigit_def digitVal_def
        cutoff_def)

end
